theory Spec2Isabelle
  imports Complex_Main
begin

section \<open>NumPy floating-point values\<close>

text \<open>
  The arrays of \<^verbatim>\<open>exotrace/core.py\<close> hold IEEE doubles. A double is modelled as either a
  finite value, one of the two infinities, or NaN. Arithmetic on finite values is exact
  real arithmetic: rounding, overflow and the sign of zero are not part of the model.
  The special values follow IEEE 754 as NumPy implements it (a division by zero or an
  invalid operation yields an infinity or NaN and, at most, a warning; it never raises).
\<close>

datatype npfloat = Fin real | PInf | NInf | NaN

fun isnan :: "npfloat \<Rightarrow> bool" where
  "isnan NaN = True"
| "isnan _ = False"

fun isfinite :: "npfloat \<Rightarrow> bool" where
  "isfinite (Fin _) = True"
| "isfinite _ = False"

fun fneg :: "npfloat \<Rightarrow> npfloat" where
  "fneg (Fin x) = Fin (- x)"
| "fneg PInf = NInf"
| "fneg NInf = PInf"
| "fneg NaN = NaN"

fun fadd :: "npfloat \<Rightarrow> npfloat \<Rightarrow> npfloat" where
  "fadd (Fin x) (Fin y) = Fin (x + y)"
| "fadd NaN _ = NaN"
| "fadd _ NaN = NaN"
| "fadd PInf NInf = NaN"
| "fadd NInf PInf = NaN"
| "fadd PInf _ = PInf"
| "fadd NInf _ = NInf"
| "fadd _ PInf = PInf"
| "fadd _ NInf = NInf"

definition fsub :: "npfloat \<Rightarrow> npfloat \<Rightarrow> npfloat" where
  "fsub x y = fadd x (fneg y)"

text \<open>The sign of a product or quotient with an infinite operand.\<close>

fun signed_inf :: "bool \<Rightarrow> npfloat" where
  "signed_inf True = PInf"
| "signed_inf False = NInf"

fun fmul :: "npfloat \<Rightarrow> npfloat \<Rightarrow> npfloat" where
  "fmul (Fin x) (Fin y) = Fin (x * y)"
| "fmul NaN _ = NaN"
| "fmul _ NaN = NaN"
| "fmul (Fin x) PInf = (if x = 0 then NaN else signed_inf (0 < x))"
| "fmul (Fin x) NInf = (if x = 0 then NaN else signed_inf (x < 0))"
| "fmul PInf (Fin y) = (if y = 0 then NaN else signed_inf (0 < y))"
| "fmul NInf (Fin y) = (if y = 0 then NaN else signed_inf (y < 0))"
| "fmul PInf PInf = PInf"
| "fmul NInf NInf = PInf"
| "fmul PInf NInf = NInf"
| "fmul NInf PInf = NInf"

fun fdiv :: "npfloat \<Rightarrow> npfloat \<Rightarrow> npfloat" where
  "fdiv (Fin x) (Fin y) =
     (if y = 0 then (if x = 0 then NaN else signed_inf (0 < x)) else Fin (x / y))"
| "fdiv NaN _ = NaN"
| "fdiv _ NaN = NaN"
| "fdiv (Fin x) PInf = Fin 0"
| "fdiv (Fin x) NInf = Fin 0"
| "fdiv PInf (Fin y) = signed_inf (0 \<le> y)"
| "fdiv NInf (Fin y) = signed_inf (y < 0)"
| "fdiv PInf PInf = NaN"
| "fdiv NInf NInf = NaN"
| "fdiv PInf NInf = NaN"
| "fdiv NInf PInf = NaN"

fun fsqrt :: "npfloat \<Rightarrow> npfloat" where
  "fsqrt (Fin x) = (if x < 0 then NaN else Fin (sqrt x))"
| "fsqrt PInf = PInf"
| "fsqrt NInf = NaN"
| "fsqrt NaN = NaN"

text \<open>Comparisons: every comparison with NaN is false.\<close>

fun fle :: "npfloat \<Rightarrow> npfloat \<Rightarrow> bool" where
  "fle (Fin x) (Fin y) = (x \<le> y)"
| "fle NaN _ = False"
| "fle _ NaN = False"
| "fle NInf _ = True"
| "fle _ PInf = True"
| "fle PInf _ = False"
| "fle _ NInf = False"

definition fge :: "npfloat \<Rightarrow> npfloat \<Rightarrow> bool" where
  "fge x y = fle y x"

definition flt :: "npfloat \<Rightarrow> npfloat \<Rightarrow> bool" where
  "flt x y = (fle x y \<and> x \<noteq> y)"

definition fgt :: "npfloat \<Rightarrow> npfloat \<Rightarrow> bool" where
  "fgt x y = flt y x"

section \<open>Vectors of three components\<close>

type_synonym vec3 = "npfloat \<times> npfloat \<times> npfloat"

fun vsub :: "vec3 \<Rightarrow> vec3 \<Rightarrow> vec3" where
  "vsub (a0, a1, a2) (b0, b1, b2) = (fsub a0 b0, fsub a1 b1, fsub a2 b2)"

fun vadd :: "vec3 \<Rightarrow> vec3 \<Rightarrow> vec3" where
  "vadd (a0, a1, a2) (b0, b1, b2) = (fadd a0 b0, fadd a1 b1, fadd a2 b2)"

fun vscale :: "vec3 \<Rightarrow> npfloat \<Rightarrow> vec3" where
  "vscale (a0, a1, a2) t = (fmul a0 t, fmul a1 t, fmul a2 t)"

fun vdiv :: "vec3 \<Rightarrow> npfloat \<Rightarrow> vec3" where
  "vdiv (a0, a1, a2) s = (fdiv a0 s, fdiv a1 s, fdiv a2 s)"

text \<open>\<^verbatim>\<open>np.dot\<close> of two vectors of length three.\<close>

fun dot :: "vec3 \<Rightarrow> vec3 \<Rightarrow> npfloat" where
  "dot (a0, a1, a2) (b0, b1, b2) = fadd (fadd (fmul a0 b0) (fmul a1 b1)) (fmul a2 b2)"

text \<open>\<^verbatim>\<open>np.linalg.norm\<close>: the square root of the sum of the squares.\<close>

definition norm_np :: "vec3 \<Rightarrow> npfloat" where
  "norm_np x = fsqrt (dot x x)"

fun vfinite :: "vec3 \<Rightarrow> bool" where
  "vfinite (a0, a1, a2) = (isfinite a0 \<and> isfinite a1 \<and> isfinite a2)"

section \<open>normalize\<close>

text \<open>
  \<^verbatim>\<open>def normalize(x): x /= np.linalg.norm(x); return x\<close>

  The value the function computes. There is no guard on the norm: the division of a zero
  vector by its zero norm is \<open>0 / 0\<close> in every component.

  \<open>normalize_vec\<close> is the function in exact arithmetic: it is what the code computes, up to
  rounding, as long as no intermediate value leaves the range of the doubles. The function
  with the range of the doubles is \<open>normalize_f64\<close> below; the two agree on the vectors whose
  nonzero components have a magnitude between \<open>1e-150\<close> and \<open>1e150\<close> (lemma
  \<open>normalize_f64_agrees\<close>).
\<close>

definition normalize_vec :: "vec3 \<Rightarrow> vec3" where
  \<comment> \<open>\<^verbatim>\<open>normalize\<close>; the name alone is taken by a constant of the library\<close>
  "normalize_vec x = vdiv x (norm_np x)"

text \<open>
  The same function on a store of arrays: \<^verbatim>\<open>x /= ...\<close> writes the quotient into the array
  that \<^verbatim>\<open>x\<close> refers to, and the reference returned is the argument.
\<close>

type_synonym ref = nat
type_synonym store = "ref \<Rightarrow> vec3"

definition normalize_st :: "store \<Rightarrow> ref \<Rightarrow> store \<times> ref" where
  "normalize_st h x = (h(x := normalize_vec (h x)), x)"

subsection \<open>normalize with the range of the doubles\<close>

text \<open>
  A finite double has a magnitude below \<open>2^1024\<close>, and the smallest positive double is
  \<open>2^-1074\<close>. The result of an operation is the exact result rounded to the nearest double: an
  exact result of magnitude \<open>2^1024 - 2^970\<close> or more becomes an infinity, and one of magnitude
  \<open>2^-1075\<close> or less becomes zero. \<open>f64\<close> applies these two limits to an exact result and
  leaves every value between them as it is (the rounding of the digits stays outside the
  model; the sign of a zero is not kept).
\<close>

definition f64_overflow :: real where
  "f64_overflow = 2 ^ 1024 - 2 ^ 970"

definition f64_underflow :: real where
  "f64_underflow = 1 / 2 ^ 1075"

definition f64 :: "real \<Rightarrow> npfloat" where
  "f64 r = (if f64_overflow \<le> \<bar>r\<bar> then signed_inf (0 < r)
            else if \<bar>r\<bar> \<le> f64_underflow then Fin 0 else Fin r)"

fun ranged :: "npfloat \<Rightarrow> npfloat" where
  "ranged (Fin r) = f64 r"
| "ranged PInf = PInf"
| "ranged NInf = NInf"
| "ranged NaN = NaN"

text \<open>
  \<^verbatim>\<open>np.linalg.norm(x)\<close> of a vector is \<^verbatim>\<open>sqrt(dot(x, x))\<close>: three products and two sums,
  each of them a double, then the square root.
\<close>

fun dot_f64 :: "vec3 \<Rightarrow> vec3 \<Rightarrow> npfloat" where
  "dot_f64 (a0, a1, a2) (b0, b1, b2) =
     ranged (fadd (ranged (fadd (ranged (fmul a0 b0)) (ranged (fmul a1 b1))))
                  (ranged (fmul a2 b2)))"

definition norm_f64 :: "vec3 \<Rightarrow> npfloat" where
  "norm_f64 x = ranged (fsqrt (dot_f64 x x))"

fun vdiv_f64 :: "vec3 \<Rightarrow> npfloat \<Rightarrow> vec3" where
  "vdiv_f64 (a0, a1, a2) s = (ranged (fdiv a0 s), ranged (fdiv a1 s), ranged (fdiv a2 s))"

definition normalize_f64 :: "vec3 \<Rightarrow> vec3" where
  \<comment> \<open>\<^verbatim>\<open>x /= np.linalg.norm(x); return x\<close>\<close>
  "normalize_f64 x = vdiv_f64 x (norm_f64 x)"

section \<open>Elementary functions of NumPy and Python\<close>


definition fpow2 :: "npfloat \<Rightarrow> npfloat" where
  \<comment> \<open>\<^verbatim>\<open>x**2\<close>\<close>
  "fpow2 x = fmul x x"

fun fcos :: "npfloat \<Rightarrow> npfloat" where
  "fcos (Fin x) = Fin (cos x)"
| "fcos _ = NaN"

fun fsin :: "npfloat \<Rightarrow> npfloat" where
  "fsin (Fin x) = Fin (sin x)"
| "fsin _ = NaN"

fun farccos :: "npfloat \<Rightarrow> npfloat" where
  "farccos (Fin x) = (if - 1 \<le> x \<and> x \<le> 1 then Fin (arccos x) else NaN)"
| "farccos _ = NaN"

fun farcsin :: "npfloat \<Rightarrow> npfloat" where
  "farcsin (Fin x) = (if - 1 \<le> x \<and> x \<le> 1 then Fin (arcsin x) else NaN)"
| "farcsin _ = NaN"

text \<open>The two-argument arctangent on finite values (the angle of the point \<open>(x, y)\<close>).\<close>

definition atan2 :: "real \<Rightarrow> real \<Rightarrow> real" where
  "atan2 y x =
     (if 0 < x then arctan (y / x)
      else if x < 0 then (if 0 \<le> y then arctan (y / x) + pi else arctan (y / x) - pi)
      else if 0 < y then pi / 2
      else if y < 0 then - (pi / 2)
      else 0)"

fun farctan2 :: "npfloat \<Rightarrow> npfloat \<Rightarrow> npfloat" where
  "farctan2 (Fin y) (Fin x) = Fin (atan2 y x)"
| "farctan2 NaN _ = NaN"
| "farctan2 _ NaN = NaN"
| "farctan2 (Fin y) PInf = Fin 0"
| "farctan2 (Fin y) NInf = Fin (if y < 0 then - pi else pi)"
| "farctan2 PInf (Fin x) = Fin (pi / 2)"
| "farctan2 NInf (Fin x) = Fin (- (pi / 2))"
| "farctan2 PInf PInf = Fin (pi / 4)"
| "farctan2 PInf NInf = Fin (3 * pi / 4)"
| "farctan2 NInf PInf = Fin (- (pi / 4))"
| "farctan2 NInf NInf = Fin (- (3 * pi / 4))"

definition radians :: "npfloat \<Rightarrow> npfloat" where
  "radians x = fmul x (Fin (pi / 180))"

definition degrees :: "npfloat \<Rightarrow> npfloat" where
  "degrees x = fmul x (Fin (180 / pi))"

text \<open>Python's \<^verbatim>\<open>x % m\<close> on floats for a positive finite \<open>m\<close>: the result takes the sign
  of the divisor; the remainder of an infinity or of NaN is NaN.\<close>

fun py_mod :: "npfloat \<Rightarrow> real \<Rightarrow> npfloat" where
  "py_mod (Fin x) m = Fin (x - m * of_int \<lfloor>x / m\<rfloor>)"
| "py_mod _ m = NaN"

text \<open>\<^verbatim>\<open>np.min\<close> and \<^verbatim>\<open>np.max\<close> of a list: NaN propagates. Both raise on an empty list;
  every call in the source passes a list that is not empty.\<close>

definition fmin_nan :: "npfloat \<Rightarrow> npfloat \<Rightarrow> npfloat" where
  "fmin_nan a b = (if isnan a \<or> isnan b then NaN else if fle a b then a else b)"

definition fmax_nan :: "npfloat \<Rightarrow> npfloat \<Rightarrow> npfloat" where
  "fmax_nan a b = (if isnan a \<or> isnan b then NaN else if fle a b then b else a)"

fun np_min :: "npfloat list \<Rightarrow> npfloat" where
  "np_min [] = NaN"
| "np_min (a # as) = fold (\<lambda>b m. fmin_nan m b) as a"

fun np_max :: "npfloat list \<Rightarrow> npfloat" where
  "np_max [] = NaN"
| "np_max (a # as) = fold (\<lambda>b m. fmax_nan m b) as a"

text \<open>\<^verbatim>\<open>np.linspace(start, stop, num)\<close> with the end point included.\<close>

definition linspace :: "npfloat \<Rightarrow> npfloat \<Rightarrow> nat \<Rightarrow> npfloat list" where
  "linspace start stop num =
     (let delta = fsub stop start;
          dv = num - 1;
          step = (if 0 < dv then fdiv delta (Fin (real dv)) else delta);
          ys = map (\<lambda>k. fadd (fmul (Fin (real k)) step) start) [0..<num]
      in if 1 < num then butlast ys @ [stop] else ys)"

section \<open>Ray\<close>

record Ray =
  ray_origin :: vec3
  ray_direction :: vec3
  ray_u :: vec3

text \<open>\<^verbatim>\<open>Ray.__init__\<close>: the difference \<^verbatim>\<open>direction-origin\<close> is a fresh array, so the
  in-place division of \<open>normalize\<close> changes neither argument.\<close>

definition Ray_init :: "vec3 \<Rightarrow> vec3 \<Rightarrow> Ray" where
  "Ray_init origin direction =
     \<lparr>ray_origin = origin, ray_direction = direction, ray_u = normalize_vec (vsub direction origin)\<rparr>"

section \<open>Sphere intersection\<close>

record sphere =
  center :: vec3
  radius :: npfloat

definition quad_a :: "Ray \<Rightarrow> npfloat" where
  "quad_a R = dot (ray_u R) (ray_u R)"

definition quad_b :: "Ray \<Rightarrow> 'a sphere_scheme \<Rightarrow> npfloat" where
  "quad_b R S = fmul (Fin 2) (dot (ray_u R) (vsub (ray_origin R) (center S)))"

definition quad_c :: "Ray \<Rightarrow> 'a sphere_scheme \<Rightarrow> npfloat" where
  "quad_c R S =
     fsub (dot (vsub (ray_origin R) (center S)) (vsub (ray_origin R) (center S)))
          (fpow2 (radius S))"

definition discriminant :: "Ray \<Rightarrow> 'a sphere_scheme \<Rightarrow> npfloat" where
  "discriminant R S = fsub (fpow2 (quad_b R S)) (fmul (fmul (Fin 4) (quad_a R)) (quad_c R S))"

definition intersect :: "Ray \<Rightarrow> 'a sphere_scheme \<Rightarrow> npfloat" where
  "intersect R S =
     (let b = quad_b R S;
          discriminant = discriminant R S
      in if fge discriminant (Fin 0) then
           (let t1 = fdiv (fadd (fneg b) (fsqrt discriminant)) (Fin 2);
                t2 = fdiv (fsub (fneg b) (fsqrt discriminant)) (Fin 2);
                t1' = np_min [t1, t2];
                t2' = np_max [t1, t2]
            in if fge t1' (Fin 0) then t1' else t2')
         else PInf)"

text \<open>\<^verbatim>\<open>angle_between(v0, v1)\<close> on the store: both arguments are normalized in place.\<close>

definition angle_between :: "store \<Rightarrow> ref \<Rightarrow> ref \<Rightarrow> store \<times> npfloat" where
  "angle_between h v0 v1 =
     (let (h1, v0') = normalize_st h v0;
          (h2, v1') = normalize_st h1 v1;
          theta = farccos (dot (h2 v0') (h2 v1'))
      in (h2, theta))"

section \<open>Rotations\<close>

type_synonym mat3 = "vec3 \<times> vec3 \<times> vec3"

text \<open>\<^verbatim>\<open>R @ P\<close> and \<^verbatim>\<open>A @ B\<close> for three by three matrices given by their rows.\<close>

fun matvec :: "mat3 \<Rightarrow> vec3 \<Rightarrow> vec3" where
  "matvec (r0, r1, r2) p = (dot r0 p, dot r1 p, dot r2 p)"

fun col :: "mat3 \<Rightarrow> nat \<Rightarrow> vec3" where
  "col ((a00, a01, a02), (a10, a11, a12), (a20, a21, a22)) k =
     (if k = 0 then (a00, a10, a20) else if k = 1 then (a01, a11, a21) else (a02, a12, a22))"

fun matmul :: "mat3 \<Rightarrow> mat3 \<Rightarrow> mat3" where
  "matmul (r0, r1, r2) B =
     ((dot r0 (col B 0), dot r0 (col B 1), dot r0 (col B 2)),
      (dot r1 (col B 0), dot r1 (col B 1), dot r1 (col B 2)),
      (dot r2 (col B 0), dot r2 (col B 1), dot r2 (col B 2)))"

definition rotate_basis :: "vec3 \<Rightarrow> npfloat \<Rightarrow> npfloat \<Rightarrow> npfloat \<Rightarrow> vec3" where
  "rotate_basis P alpha beta gamma =
     (let Rx = ((Fin 1, Fin 0, Fin 0),
                (Fin 0, fcos alpha, fneg (fsin alpha)),
                (Fin 0, fsin alpha, fcos alpha));
          Ry = ((fcos beta, Fin 0, fsin beta),
                (Fin 0, Fin 1, Fin 0),
                (fneg (fsin beta), Fin 0, fcos beta));
          Rz = ((fcos gamma, fneg (fsin gamma), Fin 0),
                (fsin gamma, fcos gamma, Fin 0),
                (Fin 0, Fin 0, Fin 1));
          R = matmul (matmul Rz Ry) Rx
      in matvec R P)"




text \<open>\<^verbatim>\<open>haversine(lat1, lon1, lat2, lon2)\<close>, degrees in and out.\<close>

definition haversine :: "npfloat \<Rightarrow> npfloat \<Rightarrow> npfloat \<Rightarrow> npfloat \<Rightarrow> npfloat" where
  "haversine lat1 lon1 lat2 lon2 =
     (let lat1 = radians lat1; lon1 = radians lon1;
          lat2 = radians lat2; lon2 = radians lon2;
          dlon = fsub lon2 lon1;
          dlat = fsub lat2 lat1;
          a = fadd (fpow2 (fsin (fdiv dlat (Fin 2))))
                   (fmul (fmul (fcos lat1) (fcos lat2)) (fpow2 (fsin (fdiv dlon (Fin 2)))));
          dist = fmul (Fin 2) (farcsin (fsqrt a))
      in degrees dist)"

section \<open>Grids\<close>

text \<open>
  A two-dimensional array is a function from the index \<open>(j, i)\<close> (row, column) to the
  element; the shape is kept beside it, and only the indices inside the shape are
  meaningful. An array with a trailing axis of length three is a grid of vectors.
\<close>

type_synonym 'a grid = "nat \<times> nat \<Rightarrow> 'a"

definition ndindex :: "nat \<times> nat \<Rightarrow> (nat \<times> nat) list" where
  \<comment> \<open>\<^verbatim>\<open>np.ndindex(shape)\<close>: row-major order\<close>
  "ndindex sh = List.product [0..<fst sh] [0..<snd sh]"

fun vec_x :: "vec3 \<Rightarrow> npfloat" where "vec_x (a0, a1, a2) = a0"
fun vec_y :: "vec3 \<Rightarrow> npfloat" where "vec_y (a0, a1, a2) = a1"
fun vec_z :: "vec3 \<Rightarrow> npfloat" where "vec_z (a0, a1, a2) = a2"

section \<open>Spot and Star\<close>

record Spot =
  spot_lat :: npfloat
  spot_lon :: npfloat
  spot_radius :: npfloat
  spot_contrast :: npfloat

text \<open>
  The flux grid is a plain array after construction and a masked array once
  \<^verbatim>\<open>calc_flux\<close> has run: \<open>None\<close> is a masked element, \<open>Some v\<close> an element with value \<open>v\<close>.
  The \<^verbatim>\<open>axis\<close> field is the reference to the caller's array.
\<close>

record Star = sphere +
  star_axis :: ref
  star_inc :: npfloat
  star_meridian :: npfloat
  star_res :: nat
  star_shape :: "nat \<times> nat"
  star_u1 :: npfloat
  star_u2 :: npfloat
  star_x :: "npfloat list"
  star_y :: "npfloat list"
  star_P :: "vec3 grid"
  star_N :: "vec3 grid"
  star_mu :: "npfloat grid"
  star_r1 :: "npfloat grid"
  star_theta1 :: "npfloat grid"
  star_phi1 :: "npfloat grid"
  star_r :: "npfloat grid"
  star_theta :: "npfloat grid"
  star_phi :: "npfloat grid"
  star_lat :: "npfloat grid"
  star_lon :: "npfloat grid"
  star_flux :: "npfloat option grid"
  star_spots :: "Spot list"

definition Star_init :: "store \<Rightarrow> vec3 \<Rightarrow> npfloat \<Rightarrow> ref \<Rightarrow> nat \<Rightarrow> store \<times> Star" where
  "Star_init h c rad axis res =
     (let (h', axis') = normalize_st h axis
      in (h',
          \<lparr>center = c, radius = rad,
           star_axis = axis',
           star_inc = Fin 90,
           star_meridian = Fin 0,
           star_res = res,
           star_shape = (res, res),
           star_u1 = Fin 0,
           star_u2 = Fin 0,
           star_x = linspace (fneg rad) rad res,
           star_y = linspace (fneg rad) rad res,
           star_P = (\<lambda>_. (Fin 0, Fin 0, Fin 0)),
           star_N = (\<lambda>_. (Fin 0, Fin 0, Fin 0)),
           star_mu = (\<lambda>_. Fin 0),
           star_r1 = (\<lambda>_. Fin 0),
           star_theta1 = (\<lambda>_. Fin 0),
           star_phi1 = (\<lambda>_. Fin 0),
           star_r = (\<lambda>_. Fin 0),
           star_theta = (\<lambda>_. Fin 0),
           star_phi = (\<lambda>_. Fin 0),
           star_lat = (\<lambda>_. Fin 0),
           star_lon = (\<lambda>_. Fin 0),
           star_flux = (\<lambda>_. Some (Fin 0)),
           star_spots = []\<rparr>))"

definition Star_add :: "Spot list \<Rightarrow> bool \<Rightarrow> Star \<Rightarrow> Star" where
  "Star_add spots overwrite s =
     (if overwrite then s\<lparr>star_spots := spots\<rparr>
      else s\<lparr>star_spots := star_spots s @ spots\<rparr>)"

text \<open>
  \<^verbatim>\<open>calc_flux\<close>: ones, masked where \<^verbatim>\<open>r\<close> is NaN; then, spot by spot, the assignment
  \<^verbatim>\<open>self.flux[spotted.mask] = spot.contrast\<close>, where the mask of \<^verbatim>\<open>spotted\<close> is
  \<^verbatim>\<open>dist <= spot.radius\<close>. An assignment to a masked element of a masked array stores the
  value and clears the mask of that element.
\<close>

definition spot_step :: "Spot \<Rightarrow> Star \<Rightarrow> Star" where
  "spot_step spot s =
     (let dist = (\<lambda>ji. haversine (star_lat s ji) (star_lon s ji) (spot_lat spot) (spot_lon spot));
          spotted_mask = (\<lambda>ji. fle (dist ji) (spot_radius spot))
      in s\<lparr>star_flux := (\<lambda>ji. if spotted_mask ji then Some (spot_contrast spot)
                              else star_flux s ji)\<rparr>)"

definition calc_flux :: "Star \<Rightarrow> Star" where
  "calc_flux s =
     fold spot_step (star_spots s)
       (s\<lparr>star_flux := (\<lambda>ji. if isnan (star_r s ji) then None else Some (Fin 1))\<rparr>)"

text \<open>
  \<^verbatim>\<open>limb_darken\<close> on the masked flux array that \<^verbatim>\<open>calc_flux\<close> leaves. Subtraction and
  multiplication keep the mask; the masked power \<^verbatim>\<open>**2\<close> also masks every element whose
  result is not finite.
\<close>

definition ma_pow2 :: "npfloat option \<Rightarrow> npfloat option" where
  "ma_pow2 a = (case a of None \<Rightarrow> None
                | Some v \<Rightarrow> if isfinite (fpow2 v) then Some (fpow2 v) else None)"

definition ma_sub :: "npfloat option \<Rightarrow> npfloat option \<Rightarrow> npfloat option" where
  "ma_sub a b = (case (a, b) of (Some v, Some w) \<Rightarrow> Some (fsub v w) | _ \<Rightarrow> None)"

definition ma_scale :: "npfloat \<Rightarrow> npfloat option \<Rightarrow> npfloat option" where
  "ma_scale k a = map_option (fmul k) a"

definition limb_darken :: "Star \<Rightarrow> Star" where
  "limb_darken s =
     s\<lparr>star_flux := (\<lambda>ji.
         let d = ma_sub (star_flux s ji) (Some (star_mu s ji))
         in ma_sub (ma_sub (star_flux s ji) (ma_scale (star_u1 s) d))
                   (ma_scale (star_u2 s) (ma_pow2 d)))\<rparr>"

definition rotate_star :: "npfloat \<Rightarrow> Star \<Rightarrow> Star" where
  \<comment> \<open>\<^verbatim>\<open>Star.rotate\<close>; the name alone is taken by a constant of the library\<close>
  "rotate_star angle s =
     (let m = py_mod (fadd (star_meridian s) angle) 360;
          m = (if fgt m (Fin 180) then fsub m (Fin 360) else m);
          P = fold (\<lambda>ji P. P(ji := rotate_basis (P ji) (Fin 0) (Fin 0) (radians (fneg angle))))
                (ndindex (star_shape s)) (star_P s);
          r = (\<lambda>ji. fsqrt (fadd (fadd (fpow2 (vec_x (P ji))) (fpow2 (vec_y (P ji))))
                                 (fpow2 (vec_z (P ji)))));
          theta = (\<lambda>ji. farccos (fdiv (vec_z (P ji)) (r ji)));
          phi = (\<lambda>ji. farctan2 (vec_x (P ji)) (vec_y (P ji)));
          lat = (\<lambda>ji. degrees (fsub (theta ji) (Fin (pi / 2))));
          lon = (\<lambda>ji. degrees (phi ji))
      in limb_darken (calc_flux
           (s\<lparr>star_meridian := m, star_P := P, star_r := r, star_theta := theta,
              star_phi := phi, star_lat := lat, star_lon := lon\<rparr>)))"

definition set_meridian :: "npfloat \<Rightarrow> Star \<Rightarrow> Star" where
  "set_meridian new_meridian s = rotate_star (fsub new_meridian (star_meridian s)) s"

definition set_inclination :: "npfloat \<Rightarrow> Star \<Rightarrow> Star" where
  "set_inclination new_inclination s =
     (let angle = fsub new_inclination (star_inc s);
          P = fold (\<lambda>ji P. P(ji := rotate_basis (P ji) (radians (fneg angle)) (Fin 0) (Fin 0)))
                (ndindex (star_shape s)) (star_P s);
          r = (\<lambda>ji. fsqrt (fadd (fadd (fpow2 (vec_x (P ji))) (fpow2 (vec_y (P ji))))
                                 (fpow2 (vec_z (P ji)))));
          theta = (\<lambda>ji. farccos (fdiv (vec_z (P ji)) (r ji)));
          phi = (\<lambda>ji. farctan2 (vec_x (P ji)) (vec_y (P ji)));
          lat = (\<lambda>ji. degrees (fsub (theta ji) (Fin (pi / 2))));
          lon = (\<lambda>ji. degrees (phi ji))
      in (limb_darken (calc_flux
           (s\<lparr>star_P := P, star_r := r, star_theta := theta,
              star_phi := phi, star_lat := lat, star_lon := lon\<rparr>)))
         \<lparr>star_inc := new_inclination\<rparr>)"

section \<open>Scene\<close>

record Scene =
  scene_bodies :: "sphere list"
  scene_res :: nat
  scene_shape :: "nat \<times> nat"
  scene_extent :: "npfloat \<times> npfloat"
  scene_x :: "npfloat list"
  scene_y :: "npfloat list"
  scene_zmax :: npfloat
  scene_flux :: "npfloat grid"
  scene_body :: "sphere option grid"
  scene_mu :: "npfloat grid"
  scene_t :: "npfloat grid"




text \<open>The ray of pixel \<open>(j, i)\<close>, cast from the plane \<open>z = zmax\<close> towards \<open>z = 0\<close>.\<close>

definition pixel_ray :: "Scene \<Rightarrow> nat \<times> nat \<Rightarrow> Ray" where
  "pixel_ray s ji =
     (case ji of (j, i) \<Rightarrow>
        Ray_init (scene_x s ! i, scene_y s ! j, scene_zmax s) (scene_x s ! i, scene_y s ! j, Fin 0))"


text \<open>The values of pixel \<open>(j, i)\<close> in the four output grids, and the four assignments
  \<^verbatim>\<open>self.body[j, i] = ...\<close>, \<^verbatim>\<open>self.t[j, i] = ...\<close>, \<^verbatim>\<open>self.flux[j, i] = ...\<close>,
  \<^verbatim>\<open>self.mu[j, i] = ...\<close> of the loop body as one update.\<close>

definition pixel :: "Scene \<Rightarrow> nat \<times> nat \<Rightarrow> sphere option \<times> npfloat \<times> npfloat \<times> npfloat" where
  "pixel s ji = (scene_body s ji, scene_t s ji, scene_flux s ji, scene_mu s ji)"

definition put_pixel ::
  "Scene \<Rightarrow> nat \<times> nat \<Rightarrow> sphere option \<times> npfloat \<times> npfloat \<times> npfloat \<Rightarrow> Scene" where
  "put_pixel s ji v =
     (case v of (b, t, f, m) \<Rightarrow>
        s\<lparr>scene_body := (scene_body s)(ji := b),
          scene_t := (scene_t s)(ji := t),
          scene_flux := (scene_flux s)(ji := f),
          scene_mu := (scene_mu s)(ji := m)\<rparr>)"




section \<open>Properties\<close>

subsection \<open>normalize\<close>

lemma normalize_of_zero: "normalize_vec (Fin 0, Fin 0, Fin 0) = (NaN, NaN, NaN)"
  by (simp add: normalize_vec_def norm_np_def)

lemma sumsq_pos:
  fixes x y z :: real
  assumes "x \<noteq> 0 \<or> y \<noteq> 0 \<or> z \<noteq> 0"
  shows "0 < x * x + y * y + z * z"
proof -
  have nn: "0 \<le> x * x" "0 \<le> y * y" "0 \<le> z * z" by simp_all
  have "0 < x * x \<or> 0 < y * y \<or> 0 < z * z"
    using assms by (auto simp add: zero_less_mult_iff)
  with nn show ?thesis by linarith
qed

lemma normalize_Fin:
  assumes "x \<noteq> 0 \<or> y \<noteq> 0 \<or> z \<noteq> 0"
  shows "normalize_vec (Fin x, Fin y, Fin z) =
    (Fin (x / sqrt (x * x + y * y + z * z)), Fin (y / sqrt (x * x + y * y + z * z)),
     Fin (z / sqrt (x * x + y * y + z * z)))"
proof -
  have "0 < x * x + y * y + z * z" using assms by (rule sumsq_pos)
  then show ?thesis by (simp add: normalize_vec_def norm_np_def)
qed

lemma unit_sumsq:
  fixes x y z :: real
  assumes "x \<noteq> 0 \<or> y \<noteq> 0 \<or> z \<noteq> 0"
  defines "n \<equiv> sqrt (x * x + y * y + z * z)"
  shows "x / n * (x / n) + y / n * (y / n) + z / n * (z / n) = 1"
proof -
  have pos: "0 < x * x + y * y + z * z" using assms(1) by (rule sumsq_pos)
  have nn: "n * n = x * x + y * y + z * z" using pos by (simp add: n_def)
  have "x / n * (x / n) + y / n * (y / n) + z / n * (z / n) = (x * x + y * y + z * z) / (n * n)"
    by (simp add: add_divide_distrib)
  also have "\<dots> = 1" using pos nn by simp
  finally show ?thesis .
qed

subsection \<open>normalize with the range of the doubles\<close>

lemma f64_thresholds:
  "f64_underflow < 1 / 10 ^ 301" "3 * 10 ^ 300 < f64_overflow" "0 < f64_underflow"
  by (simp_all add: f64_underflow_def f64_overflow_def)

lemma normalize_f64_zero: "normalize_f64 (Fin 0, Fin 0, Fin 0) = (NaN, NaN, NaN)"
  using f64_thresholds(3) by (simp add: normalize_f64_def norm_f64_def f64_def f64_overflow_def)

lemma normalize_f64_overflow:
  "normalize_f64 (Fin (10 ^ 200), Fin 0, Fin 0) = (Fin 0, Fin 0, Fin 0)"
  by (simp add: normalize_f64_def norm_f64_def f64_def f64_overflow_def f64_underflow_def)

lemma normalize_f64_underflow:
  "normalize_f64 (Fin (1 / 10 ^ 200), Fin 0, Fin 0) = (PInf, NaN, NaN)"
  by (simp add: normalize_f64_def norm_f64_def f64_def f64_overflow_def f64_underflow_def)

lemma square_between:
  fixes w L U :: real
  assumes "0 \<le> L" and "L \<le> \<bar>w\<bar>" and "\<bar>w\<bar> \<le> U"
  shows "L * L \<le> w * w \<and> w * w \<le> U * U"
proof -
  have "L * L \<le> \<bar>w\<bar> * \<bar>w\<bar>" using assms by (intro mult_mono) simp_all
  moreover have "\<bar>w\<bar> * \<bar>w\<bar> \<le> U * U" using assms by (intro mult_mono) simp_all
  moreover have "\<bar>w\<bar> * \<bar>w\<bar> = w * w" by simp
  ultimately show ?thesis by simp
qed

lemma sqrt_between:
  fixes s L U :: real
  assumes "0 \<le> L" and "0 \<le> U" and "L * L \<le> s" and "s \<le> U * U"
  shows "L \<le> sqrt s \<and> sqrt s \<le> U"
proof -
  have "0 \<le> s" using assms(3) mult_nonneg_nonneg[OF assms(1) assms(1)] by linarith
  have "L \<le> sqrt s" using assms(3) by (intro real_le_rsqrt) (simp add: power2_eq_square)
  moreover have "sqrt s \<le> U"
    using assms(2,4) \<open>0 \<le> s\<close> by (intro real_le_lsqrt) (simp_all add: power2_eq_square)
  ultimately show ?thesis by simp
qed

lemma quotient_between:
  fixes w n L U :: real
  assumes "0 < L" and "L \<le> \<bar>w\<bar>" and "\<bar>w\<bar> \<le> n" and "n \<le> U"
  shows "L / U \<le> \<bar>w / n\<bar> \<and> \<bar>w / n\<bar> \<le> 1"
proof -
  have npos: "0 < n" using assms by linarith
  have e: "\<bar>w / n\<bar> = \<bar>w\<bar> / n" using npos by simp
  have "L / U \<le> \<bar>w\<bar> / n" using assms npos by (intro frac_le) simp_all
  moreover have "\<bar>w\<bar> / n \<le> 1" using assms(3) npos by (simp add: divide_le_eq)
  ultimately show ?thesis unfolding e by blast
qed

lemma f64_inside:
  assumes "r = 0 \<or> (f64_underflow < \<bar>r\<bar> \<and> \<bar>r\<bar> < f64_overflow)"
  shows "f64 r = Fin r"
proof (cases "r = 0")
  case True
  then show ?thesis using f64_thresholds by (simp add: f64_def)
next
  case False
  then show ?thesis using assms by (simp add: f64_def)
qed

lemma normalize_f64_between:
  fixes x y z L U :: real
  assumes L: "0 < L" "L \<le> U"
      and t: "f64_underflow < L * L" "3 * (U * U) < f64_overflow" "f64_underflow < L"
             "2 * U < f64_overflow" "f64_underflow < L / (2 * U)" "1 < f64_overflow"
      and bx: "x = 0 \<or> (L \<le> \<bar>x\<bar> \<and> \<bar>x\<bar> \<le> U)"
      and byy: "y = 0 \<or> (L \<le> \<bar>y\<bar> \<and> \<bar>y\<bar> \<le> U)"
      and bz: "z = 0 \<or> (L \<le> \<bar>z\<bar> \<and> \<bar>z\<bar> \<le> U)"
      and nz: "x \<noteq> 0 \<or> y \<noteq> 0 \<or> z \<noteq> 0"
  shows "normalize_f64 (Fin x, Fin y, Fin z) =
    (Fin (x / sqrt (x * x + y * y + z * z)), Fin (y / sqrt (x * x + y * y + z * z)),
     Fin (z / sqrt (x * x + y * y + z * z)))"
proof -
  define a where "a = x * x"
  define b where "b = y * y"
  define c where "c = z * z"
  define n where "n = sqrt (a + b + c)"
  have U: "0 < U" using L by linarith
  have nn: "0 \<le> a" "0 \<le> b" "0 \<le> c" by (simp_all add: a_def b_def c_def)
  have sq: "w * w = 0 \<or> (L * L \<le> w * w \<and> w * w \<le> U * U)"
    if "w = 0 \<or> (L \<le> \<bar>w\<bar> \<and> \<bar>w\<bar> \<le> U)" for w
    using that square_between[of L w U] L by auto
  define V where "V = U * U"
  define W where "W = L * L"
  have V: "0 \<le> V" by (simp add: V_def)
  have tW: "f64_underflow < W" "3 * V < f64_overflow" using t(1,2) by (simp_all add: V_def W_def)
  have sa: "a = 0 \<or> (W \<le> a \<and> a \<le> V)" unfolding a_def V_def W_def by (rule sq[OF bx])
  have sb: "b = 0 \<or> (W \<le> b \<and> b \<le> V)" unfolding b_def V_def W_def by (rule sq[OF byy])
  have sc: "c = 0 \<or> (W \<le> c \<and> c \<le> V)" unfolding c_def V_def W_def by (rule sq[OF bz])
  have keep: "f64 v = Fin v" if "v = 0 \<or> (W \<le> v \<and> v \<le> 3 * V)" for v
  proof (rule f64_inside)
    show "v = 0 \<or> (f64_underflow < \<bar>v\<bar> \<and> \<bar>v\<bar> < f64_overflow)"
    proof (cases "v = 0")
      case True then show ?thesis by simp
    next
      case False
      then have "W \<le> v" "v \<le> 3 * V" using that by simp_all
      then have "f64_underflow < \<bar>v\<bar>" "\<bar>v\<bar> < f64_overflow"
        using tW f64_thresholds(3) by linarith+
      then show ?thesis by simp
    qed
  qed
  have ka: "f64 a = Fin a" using sa V by (intro keep) linarith
  have kb: "f64 b = Fin b" using sb V by (intro keep) linarith
  have kc: "f64 c = Fin c" using sc V by (intro keep) linarith
  have kab: "f64 (a + b) = Fin (a + b)" using sa sb nn V by (intro keep) linarith
  have "a \<noteq> 0 \<or> b \<noteq> 0 \<or> c \<noteq> 0" using nz by (simp add: a_def b_def c_def)
  then have s: "W \<le> a + b + c" "a + b + c \<le> 3 * V"
    using sa sb sc nn V by linarith+
  have ks: "f64 (a + b + c) = Fin (a + b + c)" using s by (intro keep) simp
  have "a + b + c \<le> 4 * V" using s(2) V by linarith
  then have "a + b + c \<le> (2 * U) * (2 * U)" by (simp add: V_def)
  moreover have "L * L \<le> a + b + c" using s(1) by (simp add: W_def)
  ultimately have nb: "L \<le> n \<and> n \<le> 2 * U"
    unfolding n_def using L U by (intro sqrt_between) simp_all
  then have npos: "0 < n" using L by linarith
  have kn: "f64 n = Fin n"
    using nb npos t(3,4) by (intro f64_inside) simp
  have q: "f64 (w / n) = Fin (w / n)"
    if w: "w = 0 \<or> (L \<le> \<bar>w\<bar> \<and> \<bar>w\<bar> \<le> U)" and ws: "w * w \<le> a + b + c" for w
  proof (cases "w = 0")
    case True
    then show ?thesis using f64_inside[of 0] by simp
  next
    case False
    have "\<bar>w\<bar> \<le> n" unfolding n_def using ws by (intro real_le_rsqrt) (simp add: power2_eq_square)
    then have "L / (2 * U) \<le> \<bar>w / n\<bar> \<and> \<bar>w / n\<bar> \<le> 1"
      using w False nb L by (intro quotient_between) simp_all
    then show ?thesis using t(5,6) by (intro f64_inside) simp
  qed
  have qx: "f64 (x / n) = Fin (x / n)" using nn by (intro q[OF bx]) (simp add: a_def)
  have qy: "f64 (y / n) = Fin (y / n)" using nn by (intro q[OF byy]) (simp add: b_def)
  have qz: "f64 (z / n) = Fin (z / n)" using nn by (intro q[OF bz]) (simp add: c_def)
  have nf: "norm_f64 (Fin x, Fin y, Fin z) = Fin n"
    using ka kb kc kab ks kn npos s nn unfolding a_def b_def c_def n_def
    by (simp add: norm_f64_def)
  have "n \<noteq> 0" using npos by simp
  then have "normalize_f64 (Fin x, Fin y, Fin z) = (Fin (x / n), Fin (y / n), Fin (z / n))"
    by (simp add: normalize_f64_def nf qx qy qz)
  then show ?thesis by (simp add: n_def a_def b_def c_def)
qed

lemma f64_band_thresholds:
  "(0::real) < 1 / 10 ^ 150" "(1::real) / 10 ^ 150 \<le> 10 ^ 150"
  "f64_underflow < (1 / 10 ^ 150) * (1 / 10 ^ 150)" "3 * (10 ^ 150 * 10 ^ 150) < f64_overflow"
  "f64_underflow < 1 / 10 ^ 150" "2 * 10 ^ 150 < f64_overflow"
  "f64_underflow < (1 / 10 ^ 150) / (2 * 10 ^ 150)" "1 < f64_overflow"
  by (simp_all add: f64_underflow_def f64_overflow_def)

lemma normalize_f64_in_band:
  fixes x y z :: real
  assumes "x = 0 \<or> (1 / 10 ^ 150 \<le> \<bar>x\<bar> \<and> \<bar>x\<bar> \<le> 10 ^ 150)"
      and "y = 0 \<or> (1 / 10 ^ 150 \<le> \<bar>y\<bar> \<and> \<bar>y\<bar> \<le> 10 ^ 150)"
      and "z = 0 \<or> (1 / 10 ^ 150 \<le> \<bar>z\<bar> \<and> \<bar>z\<bar> \<le> 10 ^ 150)"
      and "x \<noteq> 0 \<or> y \<noteq> 0 \<or> z \<noteq> 0"
  shows "normalize_f64 (Fin x, Fin y, Fin z) =
    (Fin (x / sqrt (x * x + y * y + z * z)), Fin (y / sqrt (x * x + y * y + z * z)),
     Fin (z / sqrt (x * x + y * y + z * z)))"
  by (rule normalize_f64_between[OF f64_band_thresholds assms])

lemma normalize_f64_agrees:
  fixes x y z :: real
  assumes "x = 0 \<or> (1 / 10 ^ 150 \<le> \<bar>x\<bar> \<and> \<bar>x\<bar> \<le> 10 ^ 150)"
      and "y = 0 \<or> (1 / 10 ^ 150 \<le> \<bar>y\<bar> \<and> \<bar>y\<bar> \<le> 10 ^ 150)"
      and "z = 0 \<or> (1 / 10 ^ 150 \<le> \<bar>z\<bar> \<and> \<bar>z\<bar> \<le> 10 ^ 150)"
      and "x \<noteq> 0 \<or> y \<noteq> 0 \<or> z \<noteq> 0"
  shows "normalize_f64 (Fin x, Fin y, Fin z) = normalize_vec (Fin x, Fin y, Fin z)"
  by (simp only: normalize_f64_in_band[OF assms] normalize_Fin[OF assms(4)])

text \<open>
  C3, as the code has it. For a finite vector that is not the zero vector and whose
  nonzero components each have a magnitude between \<open>1e-150\<close> and \<open>1e150\<close>, no intermediate
  value of \<open>normalize\<close> leaves the range of the doubles, and the result is the finite vector
  of norm one (in the code: of norm one up to the rounding of the operations, which the
  model leaves out). For the zero vector nothing is raised and the result is NaN in every
  component. Outside the range the result is silently wrong as well: at \<open>(1e200, 0, 0)\<close> the
  squared norm overflows and the result is the zero vector, at \<open>(1e-200, 0, 0)\<close> the squared
  norm underflows to zero and the result is \<open>(inf, nan, nan)\<close>.
\<close>

theorem normalize_unit_or_nan:
  fixes x y z :: real
  shows
  "((x = 0 \<or> (1 / 10 ^ 150 \<le> \<bar>x\<bar> \<and> \<bar>x\<bar> \<le> 10 ^ 150))
    \<and> (y = 0 \<or> (1 / 10 ^ 150 \<le> \<bar>y\<bar> \<and> \<bar>y\<bar> \<le> 10 ^ 150))
    \<and> (z = 0 \<or> (1 / 10 ^ 150 \<le> \<bar>z\<bar> \<and> \<bar>z\<bar> \<le> 10 ^ 150))
    \<and> (x \<noteq> 0 \<or> y \<noteq> 0 \<or> z \<noteq> 0)
    \<longrightarrow> (\<exists>a b c. normalize_f64 (Fin x, Fin y, Fin z) = (Fin a, Fin b, Fin c)
                  \<and> a * a + b * b + c * c = 1))
   \<and> normalize_f64 (Fin 0, Fin 0, Fin 0) = (NaN, NaN, NaN)
   \<and> normalize_f64 (Fin (10 ^ 200), Fin 0, Fin 0) = (Fin 0, Fin 0, Fin 0)
   \<and> normalize_f64 (Fin (1 / 10 ^ 200), Fin 0, Fin 0) = (PInf, NaN, NaN)"
proof (intro conjI impI)
  assume h: "(x = 0 \<or> (1 / 10 ^ 150 \<le> \<bar>x\<bar> \<and> \<bar>x\<bar> \<le> 10 ^ 150))
    \<and> (y = 0 \<or> (1 / 10 ^ 150 \<le> \<bar>y\<bar> \<and> \<bar>y\<bar> \<le> 10 ^ 150))
    \<and> (z = 0 \<or> (1 / 10 ^ 150 \<le> \<bar>z\<bar> \<and> \<bar>z\<bar> \<le> 10 ^ 150))
    \<and> (x \<noteq> 0 \<or> y \<noteq> 0 \<or> z \<noteq> 0)"
  then have nz: "x \<noteq> 0 \<or> y \<noteq> 0 \<or> z \<noteq> 0" by blast
  have "normalize_f64 (Fin x, Fin y, Fin z) =
    (Fin (x / sqrt (x * x + y * y + z * z)), Fin (y / sqrt (x * x + y * y + z * z)),
     Fin (z / sqrt (x * x + y * y + z * z)))"
    using h by (intro normalize_f64_in_band) blast+
  then show "\<exists>a b c. normalize_f64 (Fin x, Fin y, Fin z) = (Fin a, Fin b, Fin c)
                  \<and> a * a + b * b + c * c = 1"
    using unit_sumsq[OF nz] by blast
next
  show "normalize_f64 (Fin 0, Fin 0, Fin 0) = (NaN, NaN, NaN)" by (rule normalize_f64_zero)
  show "normalize_f64 (Fin (10 ^ 200), Fin 0, Fin 0) = (Fin 0, Fin 0, Fin 0)"
    by (rule normalize_f64_overflow)
  show "normalize_f64 (Fin (1 / 10 ^ 200), Fin 0, Fin 0) = (PInf, NaN, NaN)"
    by (rule normalize_f64_underflow)
qed

theorem normalize_unit_or_nan_witness:
  "\<exists>a b c. normalize_f64 (Fin 3, Fin 4, Fin 0) = (Fin a, Fin b, Fin c)
      \<and> a * a + b * b + c * c = 1"
  using normalize_unit_or_nan [of 3 4 0] by simp

text \<open>
  C3 as stated fails at the zero vector: no error is raised, the result is NaN in every
  component (with the range of the doubles and in exact arithmetic alike).
\<close>

theorem normalize_zero_is_nan:
  "normalize_f64 (Fin 0, Fin 0, Fin 0) = (NaN, NaN, NaN)
   \<and> normalize_vec (Fin 0, Fin 0, Fin 0) = (NaN, NaN, NaN)"
  by (simp add: normalize_f64_zero normalize_of_zero)

text \<open>
  C10: \<open>normalize\<close> overwrites the array it is given with the normalized value and
  returns the same reference, leaving every other array alone; hence \<open>Star_init\<close> leaves the
  caller's axis array normalized (and the star's axis field refers to that very array), and
  \<open>angle_between\<close> leaves both of its argument arrays normalized.
\<close>

theorem normalize_mutates_argument:
  "snd (normalize_st h x) = x
   \<and> fst (normalize_st h x) x = normalize_vec (h x)
   \<and> (\<forall>y. y \<noteq> x \<longrightarrow> fst (normalize_st h x) y = h y)
   \<and> star_axis (snd (Star_init h c rad a res)) = a
   \<and> fst (Star_init h c rad a res) a = normalize_vec (h a)
   \<and> (v0 \<noteq> v1 \<longrightarrow> fst (angle_between h v0 v1) v0 = normalize_vec (h v0)
                  \<and> fst (angle_between h v0 v1) v1 = normalize_vec (h v1))
   \<and> fst (angle_between h v0 v0) v0 = normalize_vec (normalize_vec (h v0))"
  by (simp add: normalize_st_def Star_init_def angle_between_def)

theorem normalize_mutates_argument_witness:
  "(0::nat) \<noteq> 1
   \<and> fst (normalize_st (\<lambda>_. (Fin 0, Fin 0, Fin 2)) 0) 0 = (Fin 0, Fin 0, Fin 1)
   \<and> fst (normalize_st (\<lambda>_. (Fin 0, Fin 0, Fin 2)) 0) 1 = (Fin 0, Fin 0, Fin 2)
   \<and> fst (angle_between (\<lambda>_. (Fin 0, Fin 0, Fin 2)) 0 1) 0 = (Fin 0, Fin 0, Fin 1)
   \<and> fst (angle_between (\<lambda>_. (Fin 0, Fin 0, Fin 2)) 0 1) 1 = (Fin 0, Fin 0, Fin 1)"
  using normalize_mutates_argument [of "\<lambda>_. (Fin 0, Fin 0, Fin 2)" 0 "(Fin 0, Fin 0, Fin 0)" "Fin 1" 0 1 0 1]
  by (simp add: normalize_vec_def norm_np_def)

subsection \<open>Arithmetic on finite values\<close>

lemma fsub_Fin [simp]: "fsub (Fin x) (Fin y) = Fin (x - y)"
  by (simp add: fsub_def)

lemma fpow2_Fin [simp]: "fpow2 (Fin x) = Fin (x * x)"
  by (simp add: fpow2_def)

lemma fge_Fin [simp]: "fge (Fin x) (Fin y) = (y \<le> x)"
  by (simp add: fge_def)

lemma flt_Fin [simp]: "flt (Fin x) (Fin y) = (x < y)"
  by (auto simp add: flt_def)

lemma fgt_Fin [simp]: "fgt (Fin x) (Fin y) = (y < x)"
  by (simp add: fgt_def)

lemma np_min_pair: "np_min [Fin x, Fin y] = Fin (min x y)"
  by (simp add: fmin_nan_def min_def)

lemma np_max_pair: "np_max [Fin x, Fin y] = Fin (max x y)"
  by (simp add: fmax_nan_def max_def)

subsection \<open>intersect\<close>

text \<open>The value of intersect on finite data, whatever the direction's length.\<close>

lemma intersect_Fin:
  fixes R :: Ray and S :: "'a sphere_scheme"
  assumes "quad_b R S = Fin b" and "discriminant R S = Fin d"
  shows "intersect R S =
    (if d < 0 then PInf
     else Fin (if 0 \<le> (- b - sqrt d) / 2 then (- b - sqrt d) / 2 else (- b + sqrt d) / 2))"
proof (cases "d < 0")
  case True
  then show ?thesis using assms by (simp add: intersect_def)
next
  case False
  then have "0 \<le> sqrt d" by simp
  then have "min ((- b + sqrt d) / 2) ((- b - sqrt d) / 2) = (- b - sqrt d) / 2"
    and "max ((- b + sqrt d) / 2) ((- b - sqrt d) / 2) = (- b + sqrt d) / 2"
    by (simp_all add: min_def max_def)
  then show ?thesis using assms False
    by (simp add: intersect_def Let_def np_min_pair np_max_pair del: np_min.simps np_max.simps)
qed

lemma intersect_miss:
  fixes R :: Ray and S :: "'a sphere_scheme"
  assumes "flt (discriminant R S) (Fin 0)"
  shows "intersect R S = PInf"
proof -
  have "\<not> fge (discriminant R S) (Fin 0)"
    using assms by (cases "discriminant R S") (auto simp add: flt_def fge_def)
  then show ?thesis by (simp add: intersect_def Let_def)
qed

lemma monic_roots:
  fixes b c :: real
  assumes "0 \<le> b * b - 4 * c"
  defines "d \<equiv> b * b - 4 * c"
  shows "{t. t * t + b * t + c = 0} = {(- b - sqrt d) / 2, (- b + sqrt d) / 2}"
proof -
  have sq: "sqrt d * sqrt d = d" using assms by simp
  have "t * t + b * t + c = (t - (- b - sqrt d) / 2) * (t - (- b + sqrt d) / 2)" for t
  proof -
    have "(t - (- b - sqrt d) / 2) * (t - (- b + sqrt d) / 2)
          = t * t + b * t + (b * b - sqrt d * sqrt d) / 4"
      by (simp add: algebra_simps add_divide_distrib diff_divide_distrib)
    also have "\<dots> = t * t + b * t + c" using assms(1) by (simp add: d_def)
    finally show ?thesis by simp
  qed
  then show ?thesis by auto
qed

lemma Ray_init_unit:
  assumes "dx \<noteq> ox \<or> dy \<noteq> oy \<or> dz \<noteq> oz"
  shows "\<exists>ux uy uz. ray_u (Ray_init (Fin ox, Fin oy, Fin oz) (Fin dx, Fin dy, Fin dz))
            = (Fin ux, Fin uy, Fin uz) \<and> ux * ux + uy * uy + uz * uz = 1"
proof -
  have nz: "dx - ox \<noteq> 0 \<or> dy - oy \<noteq> 0 \<or> dz - oz \<noteq> 0" using assms by simp
  show ?thesis
    using normalize_Fin[OF nz] unit_sumsq[OF nz] by (simp add: Ray_init_def)
qed

lemma on_sphere_quadratic:
  fixes ux uy uz ox oy oz cx cy cz rad t :: real
  assumes "ux * ux + uy * uy + uz * uz = 1"
  shows "((ox + ux * t - cx) * (ox + ux * t - cx) + (oy + uy * t - cy) * (oy + uy * t - cy)
          + (oz + uz * t - cz) * (oz + uz * t - cz) = rad * rad)
     \<longleftrightarrow> t * t + 2 * (ux * (ox - cx) + uy * (oy - cy) + uz * (oz - cz)) * t
          + ((ox - cx) * (ox - cx) + (oy - cy) * (oy - cy) + (oz - cz) * (oz - cz) - rad * rad) = 0"
proof -
  have "(ox + ux * t - cx) * (ox + ux * t - cx) + (oy + uy * t - cy) * (oy + uy * t - cy)
          + (oz + uz * t - cz) * (oz + uz * t - cz)
        = (ux * ux + uy * uy + uz * uz) * (t * t)
          + 2 * (ux * (ox - cx) + uy * (oy - cy) + uz * (oz - cz)) * t
          + ((ox - cx) * (ox - cx) + (oy - cy) * (oy - cy) + (oz - cz) * (oz - cz))"
    by (simp add: algebra_simps)
  then show ?thesis using assms by auto
qed

text \<open>
  C1: a negative discriminant gives \<open>+infinity\<close>, for every ray and sphere. For a ray built
  by \<open>Ray_init\<close> from finite points (origin and target distinct) and a finite sphere, the
  direction is a unit vector, the quadratic is \<open>t\<^sup>2 + b t + c\<close>, its roots are the
  parameters at which the ray's line meets the sphere, and with a discriminant that is not
  negative the result is the smaller root when that root is not negative and the larger
  root otherwise (whatever its sign); with discriminant zero the two roots are equal.
\<close>

theorem intersect_smaller_nonneg_root:
  fixes ox oy oz dx dy dz cx cy cz rad :: real and R' :: Ray and S' :: sphere
  assumes ne: "dx \<noteq> ox \<or> dy \<noteq> oy \<or> dz \<noteq> oz"
  defines "R \<equiv> Ray_init (Fin ox, Fin oy, Fin oz) (Fin dx, Fin dy, Fin dz)"
  defines "S \<equiv> \<lparr>center = (Fin cx, Fin cy, Fin cz), radius = Fin rad\<rparr>"
  shows "(flt (discriminant R' S') (Fin 0) \<longrightarrow> intersect R' S' = PInf)
    \<and> (\<exists>b c. quad_a R = Fin 1 \<and> quad_b R S = Fin b \<and> quad_c R S = Fin c
          \<and> discriminant R S = Fin (b * b - 4 * c)
          \<and> (\<forall>t. t * t + b * t + c = 0 \<longleftrightarrow>
                 dot (vsub (vadd (ray_origin R) (vscale (ray_u R) (Fin t))) (center S))
                     (vsub (vadd (ray_origin R) (vscale (ray_u R) (Fin t))) (center S))
                   = fpow2 (radius S))
          \<and> (b * b - 4 * c < 0 \<longrightarrow> intersect R S = PInf)
          \<and> (0 \<le> b * b - 4 * c \<longrightarrow>
               (\<exists>t1 t2. t1 \<le> t2 \<and> {t. t * t + b * t + c = 0} = {t1, t2}
                  \<and> (b * b - 4 * c = 0 \<longrightarrow> t1 = t2)
                  \<and> intersect R S = Fin (if 0 \<le> t1 then t1 else t2))))"
proof
  show "flt (discriminant R' S') (Fin 0) \<longrightarrow> intersect R' S' = PInf"
    by (simp add: intersect_miss)
next
  obtain ux uy uz where u: "ray_u R = (Fin ux, Fin uy, Fin uz)"
    and unit: "ux * ux + uy * uy + uz * uz = 1"
    using Ray_init_unit[OF ne] unfolding R_def by blast
  have o: "ray_origin R = (Fin ox, Fin oy, Fin oz)" by (simp add: R_def Ray_init_def)
  define b where "b = 2 * (ux * (ox - cx) + uy * (oy - cy) + uz * (oz - cz))"
  define c where "c = (ox - cx) * (ox - cx) + (oy - cy) * (oy - cy) + (oz - cz) * (oz - cz) - rad * rad"
  define d where "d = b * b - 4 * c"
  have qa: "quad_a R = Fin 1" using unit by (simp add: quad_a_def u)
  have qb: "quad_b R S = Fin b" by (simp add: quad_b_def u o S_def b_def)
  have qc: "quad_c R S = Fin c" by (simp add: quad_c_def o S_def c_def)
  have dd: "discriminant R S = Fin d" by (simp add: discriminant_def qa qb qc d_def)
  have geo: "t * t + b * t + c = 0 \<longleftrightarrow>
                 dot (vsub (vadd (ray_origin R) (vscale (ray_u R) (Fin t))) (center S))
                     (vsub (vadd (ray_origin R) (vscale (ray_u R) (Fin t))) (center S))
                   = fpow2 (radius S)" for t
    using on_sphere_quadratic[OF unit, of ox t cx oy cy oz cz rad]
    by (simp add: u o S_def b_def c_def)
  have val: "intersect R S =
    (if d < 0 then PInf
     else Fin (if 0 \<le> (- b - sqrt d) / 2 then (- b - sqrt d) / 2 else (- b + sqrt d) / 2))"
    by (rule intersect_Fin[OF qb dd])
  have miss: "d < 0 \<longrightarrow> intersect R S = PInf" using val by simp
  have hit: "\<exists>t1 t2. t1 \<le> t2 \<and> {t. t * t + b * t + c = 0} = {t1, t2}
                  \<and> (d = 0 \<longrightarrow> t1 = t2)
                  \<and> intersect R S = Fin (if 0 \<le> t1 then t1 else t2)" if nn: "0 \<le> d"
  proof (intro exI conjI)
    show "(- b - sqrt d) / 2 \<le> (- b + sqrt d) / 2" using nn by simp
    show "{t. t * t + b * t + c = 0} = {(- b - sqrt d) / 2, (- b + sqrt d) / 2}"
      using monic_roots[of b c] nn by (simp add: d_def)
    show "d = 0 \<longrightarrow> (- b - sqrt d) / 2 = (- b + sqrt d) / 2" by simp
    show "intersect R S = Fin (if 0 \<le> (- b - sqrt d) / 2 then (- b - sqrt d) / 2 else (- b + sqrt d) / 2)"
      using val nn by simp
  qed
  show "\<exists>b c. quad_a R = Fin 1 \<and> quad_b R S = Fin b \<and> quad_c R S = Fin c
          \<and> discriminant R S = Fin (b * b - 4 * c)
          \<and> (\<forall>t. t * t + b * t + c = 0 \<longleftrightarrow>
                 dot (vsub (vadd (ray_origin R) (vscale (ray_u R) (Fin t))) (center S))
                     (vsub (vadd (ray_origin R) (vscale (ray_u R) (Fin t))) (center S))
                   = fpow2 (radius S))
          \<and> (b * b - 4 * c < 0 \<longrightarrow> intersect R S = PInf)
          \<and> (0 \<le> b * b - 4 * c \<longrightarrow>
               (\<exists>t1 t2. t1 \<le> t2 \<and> {t. t * t + b * t + c = 0} = {t1, t2}
                  \<and> (b * b - 4 * c = 0 \<longrightarrow> t1 = t2)
                  \<and> intersect R S = Fin (if 0 \<le> t1 then t1 else t2)))"
    using qa qb qc dd geo miss hit unfolding d_def by blast
qed

theorem intersect_smaller_nonneg_root_witness:
  "\<exists>b c. quad_b (Ray_init (Fin 0, Fin 0, Fin 2) (Fin 0, Fin 0, Fin 1))
                 \<lparr>center = (Fin 0, Fin 0, Fin 0), radius = Fin 1\<rparr> = Fin b
       \<and> quad_c (Ray_init (Fin 0, Fin 0, Fin 2) (Fin 0, Fin 0, Fin 1))
                 \<lparr>center = (Fin 0, Fin 0, Fin 0), radius = Fin 1\<rparr> = Fin c
       \<and> 0 \<le> b * b - 4 * c
       \<and> (\<exists>t1 t2. t1 \<le> t2 \<and> {t. t * t + b * t + c = 0} = {t1, t2}
             \<and> intersect (Ray_init (Fin 0, Fin 0, Fin 2) (Fin 0, Fin 0, Fin 1))
                  \<lparr>center = (Fin 0, Fin 0, Fin 0), radius = Fin 1\<rparr>
                = Fin (if 0 \<le> t1 then t1 else t2))
       \<and> intersect (Ray_init (Fin 0, Fin 0, Fin 2) (Fin 0, Fin 0, Fin 1))
            \<lparr>center = (Fin 0, Fin 0, Fin 0), radius = Fin 1\<rparr> = Fin 1"
proof -
  let ?R = "Ray_init (Fin 0, Fin 0, Fin 2) (Fin 0, Fin 0, Fin 1)"
  let ?S = "\<lparr>center = (Fin 0, Fin 0, Fin 0), radius = Fin 1\<rparr>"
  have ne: "(0::real) \<noteq> 0 \<or> (0::real) \<noteq> 0 \<or> (1::real) \<noteq> 2" by simp
  from intersect_smaller_nonneg_root[OF ne, where cx = 0 and cy = 0 and cz = 0 and rad = 1]
  obtain b c where qb: "quad_b ?R ?S = Fin b" and qc: "quad_c ?R ?S = Fin c"
    and hit: "0 \<le> b * b - 4 * c \<longrightarrow>
               (\<exists>t1 t2. t1 \<le> t2 \<and> {t. t * t + b * t + c = 0} = {t1, t2}
                  \<and> (b * b - 4 * c = 0 \<longrightarrow> t1 = t2)
                  \<and> intersect ?R ?S = Fin (if 0 \<le> t1 then t1 else t2))"
    by blast
  have "quad_b ?R ?S = Fin (- 4)"
    by (simp add: quad_b_def Ray_init_def normalize_vec_def norm_np_def)
  with qb have b: "b = - 4" by simp
  have "quad_c ?R ?S = Fin 3"
    by (simp add: quad_c_def Ray_init_def)
  with qc have c: "c = 3" by simp
  have nn: "0 \<le> b * b - 4 * c" by (simp add: b c)
  have val: "intersect ?R ?S = Fin 1"
    by (simp add: intersect_def Ray_init_def normalize_vec_def norm_np_def quad_b_def quad_a_def
        quad_c_def discriminant_def fmin_nan_def fmax_nan_def)
  from hit nn qb qc val show ?thesis by blast
qed

subsection \<open>rotate_basis\<close>

lemma rotate_basis_Fin:
  "rotate_basis (Fin x, Fin y, Fin z) (Fin a) (Fin b) (Fin g) =
     (Fin ((cos g * cos b) * x + (cos g * sin b * sin a - sin g * cos a) * y
            + (cos g * sin b * cos a + sin g * sin a) * z),
      Fin ((sin g * cos b) * x + (sin g * sin b * sin a + cos g * cos a) * y
            + (sin g * sin b * cos a - cos g * sin a) * z),
      Fin (- sin b * x + (cos b * sin a) * y + (cos b * cos a) * z))"
  by (simp add: rotate_basis_def Let_def algebra_simps)

lemma rotate_basis_x:
  "rotate_basis (Fin x, Fin y, Fin z) (Fin a) (Fin 0) (Fin 0) =
     (Fin x, Fin (cos a * y - sin a * z), Fin (sin a * y + cos a * z))"
  by (simp add: rotate_basis_Fin)

lemma rotate_basis_y:
  "rotate_basis (Fin x, Fin y, Fin z) (Fin 0) (Fin b) (Fin 0) =
     (Fin (cos b * x + sin b * z), Fin y, Fin (cos b * z - sin b * x))"
  by (simp add: rotate_basis_Fin)

lemma rotate_basis_z:
  "rotate_basis (Fin x, Fin y, Fin z) (Fin 0) (Fin 0) (Fin g) =
     (Fin (cos g * x - sin g * y), Fin (sin g * x + cos g * y), Fin z)"
  by (simp add: rotate_basis_Fin)

lemma rotate_basis_compose:
  "rotate_basis (Fin x, Fin y, Fin z) (Fin a) (Fin b) (Fin g) =
   rotate_basis (rotate_basis (rotate_basis (Fin x, Fin y, Fin z) (Fin a) (Fin 0) (Fin 0))
                   (Fin 0) (Fin b) (Fin 0)) (Fin 0) (Fin 0) (Fin g)"
  by (simp add: rotate_basis_x rotate_basis_y rotate_basis_z)
     (simp add: rotate_basis_Fin algebra_simps)

lemma plane_rotation_inverse:
  fixes c s p q :: real
  assumes "c * c + s * s = 1"
  shows "c * (c * p - s * q) + s * (s * p + c * q) = p"
    and "c * (s * p + c * q) - s * (c * p - s * q) = q"
proof -
  have "c * (c * p - s * q) + s * (s * p + c * q) = (c * c + s * s) * p" by (simp add: algebra_simps)
  then show "c * (c * p - s * q) + s * (s * p + c * q) = p" using assms by simp
  have "c * (s * p + c * q) - s * (c * p - s * q) = (c * c + s * s) * q" by (simp add: algebra_simps)
  then show "c * (s * p + c * q) - s * (c * p - s * q) = q" using assms by simp
qed

lemma cs1: "cos (a::real) * cos a + sin a * sin a = 1"
  using sin_cos_squared_add2[of a] by (simp add: power2_eq_square)

lemma rotate_basis_x_inverse:
  "rotate_basis (rotate_basis (Fin x, Fin y, Fin z) (Fin a) (Fin 0) (Fin 0))
      (fneg (Fin a)) (Fin 0) (Fin 0) = (Fin x, Fin y, Fin z)"
  using plane_rotation_inverse[OF cs1, of a y z]
  by (simp add: rotate_basis_x algebra_simps)

lemma rotate_basis_y_inverse:
  "rotate_basis (rotate_basis (Fin x, Fin y, Fin z) (Fin 0) (Fin b) (Fin 0))
      (Fin 0) (fneg (Fin b)) (Fin 0) = (Fin x, Fin y, Fin z)"
  using plane_rotation_inverse[OF cs1, of b z x]
  by (simp add: rotate_basis_y algebra_simps)

lemma rotate_basis_z_inverse:
  "rotate_basis (rotate_basis (Fin x, Fin y, Fin z) (Fin 0) (Fin 0) (Fin g))
      (Fin 0) (Fin 0) (fneg (Fin g)) = (Fin x, Fin y, Fin z)"
  using plane_rotation_inverse[OF cs1, of g x y]
  by (simp add: rotate_basis_z algebra_simps)

lemma rotate_basis_finite:
  "\<exists>x' y' z'. rotate_basis (Fin x, Fin y, Fin z) (Fin a) (Fin b) (Fin g) = (Fin x', Fin y', Fin z')"
  by (simp add: rotate_basis_Fin)

text \<open>
  C5, as the code has it (finite point and angles): a rotation about a single axis is undone
  by \<open>rotate_basis\<close> with the negated angles; a rotation with several angles is undone
  by the three single-axis rotations with the negated angles applied in the reverse order
  (\<open>z\<close>, then \<open>y\<close>, then \<open>x\<close>).
\<close>

theorem rotate_basis_round_trip_reversed:
  "rotate_basis (rotate_basis (Fin x, Fin y, Fin z) (Fin a) (Fin 0) (Fin 0))
      (fneg (Fin a)) (fneg (Fin 0)) (fneg (Fin 0)) = (Fin x, Fin y, Fin z)
   \<and> rotate_basis (rotate_basis (Fin x, Fin y, Fin z) (Fin 0) (Fin b) (Fin 0))
      (fneg (Fin 0)) (fneg (Fin b)) (fneg (Fin 0)) = (Fin x, Fin y, Fin z)
   \<and> rotate_basis (rotate_basis (Fin x, Fin y, Fin z) (Fin 0) (Fin 0) (Fin g))
      (fneg (Fin 0)) (fneg (Fin 0)) (fneg (Fin g)) = (Fin x, Fin y, Fin z)
   \<and> rotate_basis
        (rotate_basis
          (rotate_basis (rotate_basis (Fin x, Fin y, Fin z) (Fin a) (Fin b) (Fin g))
             (Fin 0) (Fin 0) (fneg (Fin g)))
          (Fin 0) (fneg (Fin b)) (Fin 0))
        (fneg (Fin a)) (Fin 0) (Fin 0) = (Fin x, Fin y, Fin z)"
proof (intro conjI)
  show "rotate_basis (rotate_basis (Fin x, Fin y, Fin z) (Fin a) (Fin 0) (Fin 0))
      (fneg (Fin a)) (fneg (Fin 0)) (fneg (Fin 0)) = (Fin x, Fin y, Fin z)"
    using rotate_basis_x_inverse[of x y z a] by simp
  show "rotate_basis (rotate_basis (Fin x, Fin y, Fin z) (Fin 0) (Fin b) (Fin 0))
      (fneg (Fin 0)) (fneg (Fin b)) (fneg (Fin 0)) = (Fin x, Fin y, Fin z)"
    using rotate_basis_y_inverse[of x y z b] by simp
  show "rotate_basis (rotate_basis (Fin x, Fin y, Fin z) (Fin 0) (Fin 0) (Fin g))
      (fneg (Fin 0)) (fneg (Fin 0)) (fneg (Fin g)) = (Fin x, Fin y, Fin z)"
    using rotate_basis_z_inverse[of x y z g] by simp
  obtain x1 y1 z1 where 1: "rotate_basis (Fin x, Fin y, Fin z) (Fin a) (Fin 0) (Fin 0) = (Fin x1, Fin y1, Fin z1)"
    using rotate_basis_finite by blast
  obtain x2 y2 z2 where 2: "rotate_basis (Fin x1, Fin y1, Fin z1) (Fin 0) (Fin b) (Fin 0) = (Fin x2, Fin y2, Fin z2)"
    using rotate_basis_finite by blast
  have 3: "rotate_basis (Fin x, Fin y, Fin z) (Fin a) (Fin b) (Fin g)
           = rotate_basis (Fin x2, Fin y2, Fin z2) (Fin 0) (Fin 0) (Fin g)"
    by (simp only: rotate_basis_compose[of x y z a b g] 1 2)
  have "rotate_basis (rotate_basis (Fin x, Fin y, Fin z) (Fin a) (Fin b) (Fin g))
             (Fin 0) (Fin 0) (fneg (Fin g)) = (Fin x2, Fin y2, Fin z2)"
    by (simp only: 3 rotate_basis_z_inverse)
  moreover have "rotate_basis (Fin x2, Fin y2, Fin z2) (Fin 0) (fneg (Fin b)) (Fin 0) = (Fin x1, Fin y1, Fin z1)"
    using rotate_basis_y_inverse[of x1 y1 z1 b] by (simp only: 2)
  moreover have "rotate_basis (Fin x1, Fin y1, Fin z1) (fneg (Fin a)) (Fin 0) (Fin 0) = (Fin x, Fin y, Fin z)"
    using rotate_basis_x_inverse[of x y z a] by (simp only: 1)
  ultimately show "rotate_basis
        (rotate_basis
          (rotate_basis (rotate_basis (Fin x, Fin y, Fin z) (Fin a) (Fin b) (Fin g))
             (Fin 0) (Fin 0) (fneg (Fin g)))
          (Fin 0) (fneg (Fin b)) (Fin 0))
        (fneg (Fin a)) (Fin 0) (Fin 0) = (Fin x, Fin y, Fin z)"
    by simp
qed

theorem rotate_basis_round_trip_reversed_witness:
  "rotate_basis
        (rotate_basis
          (rotate_basis (rotate_basis (Fin 0, Fin 1, Fin 0) (Fin (pi / 2)) (Fin 0) (Fin (pi / 2)))
             (Fin 0) (Fin 0) (fneg (Fin (pi / 2))))
          (Fin 0) (fneg (Fin 0)) (Fin 0))
        (fneg (Fin (pi / 2))) (Fin 0) (Fin 0) = (Fin 0, Fin 1, Fin 0)"
  using rotate_basis_round_trip_reversed [of 0 1 0 "pi / 2" 0 "pi / 2"] by blast

text \<open>
  C5 as stated fails: with \<open>alpha = gamma = pi/2\<close> the point \<open>(0, 1, 0)\<close> comes back
  as \<open>(1, 0, 0)\<close>, because \<open>rotate_basis\<close> applies the negated rotations in the same
  order \<open>x, y, z\<close> again.
\<close>

theorem rotate_basis_round_trip_fails:
  "rotate_basis (rotate_basis (Fin 0, Fin 1, Fin 0) (Fin (pi / 2)) (Fin 0) (Fin (pi / 2)))
      (fneg (Fin (pi / 2))) (fneg (Fin 0)) (fneg (Fin (pi / 2))) = (Fin 1, Fin 0, Fin 0)
   \<and> rotate_basis (rotate_basis (Fin 0, Fin 1, Fin 0) (Fin (pi / 2)) (Fin 0) (Fin (pi / 2)))
      (fneg (Fin (pi / 2))) (fneg (Fin 0)) (fneg (Fin (pi / 2))) \<noteq> (Fin 0, Fin 1, Fin 0)"
  by (simp add: rotate_basis_Fin)

subsection \<open>Axis-angle rotation and Euler angles\<close>











subsection \<open>Star: flux map\<close>

lemma fold_spot_step:
  "fold spot_step spots s =
     s\<lparr>star_flux :=
         fold (\<lambda>spot f ji.
                 if fle (haversine (star_lat s ji) (star_lon s ji) (spot_lat spot) (spot_lon spot))
                        (spot_radius spot)
                 then Some (spot_contrast spot) else f ji)
              spots (star_flux s)\<rparr>"
proof (induction spots arbitrary: s)
  case Nil
  show ?case by simp
next
  case (Cons spot spots)
  have step: "spot_step spot s =
      s\<lparr>star_flux := (\<lambda>ji.
          if fle (haversine (star_lat s ji) (star_lon s ji) (spot_lat spot) (spot_lon spot))
                 (spot_radius spot)
          then Some (spot_contrast spot) else star_flux s ji)\<rparr>"
    by (simp add: spot_step_def)
  have "fold spot_step (spot # spots) s = fold spot_step spots (spot_step spot s)" by simp
  also note Cons.IH [of "spot_step spot s"]
  finally show ?case by (simp add: step)
qed

lemma fold_pointwise:
  "fold (\<lambda>spot f ji. if cov spot ji then Some (con spot) else f ji) spots f ji
   = fold (\<lambda>spot v. if cov spot ji then Some (con spot) else v) spots (f ji)"
  by (induction spots arbitrary: f) simp_all

lemma calc_flux_at:
  "star_flux (calc_flux s) ji =
     fold (\<lambda>spot v.
             if fle (haversine (star_lat s ji) (star_lon s ji) (spot_lat spot) (spot_lon spot))
                    (spot_radius spot)
             then Some (spot_contrast spot) else v)
          (star_spots s) (if isnan (star_r s ji) then None else Some (Fin 1))"
  by (simp add: calc_flux_def fold_spot_step fold_pointwise)

lemma calc_flux_frame:
  "calc_flux s = s\<lparr>star_flux := star_flux (calc_flux s)\<rparr>"
  by (simp add: calc_flux_def fold_spot_step)

text \<open>
  C9: with an empty spot list \<open>calc_flux\<close> leaves the flux \<open>1\<close> at every grid point whose
  \<open>r\<close> is not NaN, and leaves every grid point whose \<open>r\<close> is NaN masked (no flux value).
\<close>

theorem calc_flux_no_spots:
  assumes "star_spots s = []"
  shows "(\<not> isnan (star_r s ji) \<longrightarrow> star_flux (calc_flux s) ji = Some (Fin 1))
       \<and> (isnan (star_r s ji) \<longrightarrow> star_flux (calc_flux s) ji = None)"
  using assms by (simp add: calc_flux_at)

text \<open>
  C8: with the spot list \<open>[A, B]\<close>, a grid point whose great-circle distance to both spots
  is within their radii gets exactly the contrast of \<open>B\<close>, the later spot.
\<close>

theorem calc_flux_later_spot_wins:
  assumes "star_spots s = [A, B]"
      and "fle (haversine (star_lat s ji) (star_lon s ji) (spot_lat A) (spot_lon A)) (spot_radius A)"
      and "fle (haversine (star_lat s ji) (star_lon s ji) (spot_lat B) (spot_lon B)) (spot_radius B)"
  shows "star_flux (calc_flux s) ji = Some (spot_contrast B)"
  using assms by (simp add: calc_flux_at)

lemma haversine_same_point: "haversine (Fin 0) (Fin 0) (Fin 0) (Fin 0) = Fin 0"
  by (simp add: haversine_def radians_def degrees_def fsub_def fpow2_def)

lemma limb_darken_frame:
  "limb_darken s = s\<lparr>star_flux := star_flux (limb_darken s)\<rparr>"
  by (simp add: limb_darken_def)

lemma limb_darken_at:
  "star_flux (limb_darken s) ji =
     (let d = ma_sub (star_flux s ji) (Some (star_mu s ji))
      in ma_sub (ma_sub (star_flux s ji) (ma_scale (star_u1 s) d))
                (ma_scale (star_u2 s) (ma_pow2 d)))"
  by (simp add: limb_darken_def)

lemma refresh_fields:
  "star_meridian (limb_darken (calc_flux s)) = star_meridian s"
  "star_P (limb_darken (calc_flux s)) = star_P s"
  "star_spots (limb_darken (calc_flux s)) = star_spots s"
  "star_mu (limb_darken (calc_flux s)) = star_mu s"
  "star_u1 (limb_darken (calc_flux s)) = star_u1 s"
  "star_u2 (limb_darken (calc_flux s)) = star_u2 s"
  "star_shape (limb_darken (calc_flux s)) = star_shape s"
  by (subst limb_darken_frame, subst calc_flux_frame, simp)+

lemma refresh_flux_at:
  "star_flux (limb_darken (calc_flux s)) ji =
     (let f = fold (\<lambda>spot v.
                 if fle (haversine (star_lat s ji) (star_lon s ji) (spot_lat spot) (spot_lon spot))
                        (spot_radius spot)
                 then Some (spot_contrast spot) else v)
              (star_spots s) (if isnan (star_r s ji) then None else Some (Fin 1));
          d = ma_sub f (Some (star_mu s ji))
      in ma_sub (ma_sub f (ma_scale (star_u1 s) d)) (ma_scale (star_u2 s) (ma_pow2 d)))"
proof -
  have "star_mu (calc_flux s) = star_mu s" "star_u1 (calc_flux s) = star_u1 s"
       "star_u2 (calc_flux s) = star_u2 s"
    by (subst calc_flux_frame, simp)+
  then show ?thesis by (simp add: limb_darken_at calc_flux_at Let_def)
qed

lemma fold_update_each:
  "distinct ks \<Longrightarrow>
   fold (\<lambda>k g. g(k := f (g k))) ks g = (\<lambda>k. if k \<in> set ks then f (g k) else g k)"
proof (induction ks arbitrary: g)
  case Nil
  show ?case by simp
next
  case (Cons k ks)
  then show ?case by (auto simp add: fun_eq_iff)
qed

lemma distinct_ndindex: "distinct (ndindex sh)"
  by (simp add: ndindex_def distinct_product)

text \<open>What \<open>rotate\<close> leaves in each field.\<close>

lemma rotate_meridian:
  "star_meridian (rotate_star angle s) =
     (let m = py_mod (fadd (star_meridian s) angle) 360
      in if fgt m (Fin 180) then fsub m (Fin 360) else m)"
  by (simp add: rotate_star_def Let_def refresh_fields)

lemma rotate_P:
  "star_P (rotate_star angle s) ji =
     (if ji \<in> set (ndindex (star_shape s))
      then rotate_basis (star_P s ji) (Fin 0) (Fin 0) (radians (fneg angle))
      else star_P s ji)"
  by (simp add: rotate_star_def Let_def refresh_fields
        fold_update_each[OF distinct_ndindex,
          where f = "\<lambda>v. rotate_basis v (Fin 0) (Fin 0) (radians (fneg angle))"])

lemma rotate_keeps:
  "star_spots (rotate_star angle s) = star_spots s"
  "star_mu (rotate_star angle s) = star_mu s"
  "star_u1 (rotate_star angle s) = star_u1 s"
  "star_u2 (rotate_star angle s) = star_u2 s"
  "star_shape (rotate_star angle s) = star_shape s"
  by (simp_all add: rotate_star_def Let_def refresh_fields)

text \<open>The flux that \<open>rotate\<close> leaves at a grid point is a function of the rotated position
  at that point, the spot list, \<open>mu\<close> at that point and the two coefficients.\<close>

lemma rotate_flux_at:
  "star_flux (rotate_star angle s) ji =
     (let p = star_P (rotate_star angle s) ji;
          r = fsqrt (fadd (fadd (fpow2 (vec_x p)) (fpow2 (vec_y p))) (fpow2 (vec_z p)));
          lat = degrees (fsub (farccos (fdiv (vec_z p) r)) (Fin (pi / 2)));
          lon = degrees (farctan2 (vec_x p) (vec_y p));
          f = fold (\<lambda>spot v.
                 if fle (haversine lat lon (spot_lat spot) (spot_lon spot)) (spot_radius spot)
                 then Some (spot_contrast spot) else v)
              (star_spots s) (if isnan r then None else Some (Fin 1));
          d = ma_sub f (Some (star_mu s ji))
      in ma_sub (ma_sub f (ma_scale (star_u1 s) d)) (ma_scale (star_u2 s) (ma_pow2 d)))"
  by (simp add: rotate_star_def Let_def refresh_fields refresh_flux_at)

lemma py_mod_range:
  fixes x :: real
  shows "0 \<le> x - 360 * of_int \<lfloor>x / 360\<rfloor>" and "x - 360 * of_int \<lfloor>x / 360\<rfloor> < 360"
proof -
  have "of_int \<lfloor>x / 360\<rfloor> * 360 \<le> x" by (rule floor_divide_lower) simp
  then show "0 \<le> x - 360 * of_int \<lfloor>x / 360\<rfloor>" by (simp add: mult.commute)
  have "x < (of_int \<lfloor>x / 360\<rfloor> + 1) * 360" by (rule floor_divide_upper) simp
  then show "x - 360 * of_int \<lfloor>x / 360\<rfloor> < 360" by (simp add: algebra_simps)
qed

lemma reduce_meridian:
  fixes x :: real
  defines "m \<equiv> x - 360 * of_int \<lfloor>x / 360\<rfloor>"
  shows "\<exists>m' k. (let v = py_mod (Fin x) 360 in if fgt v (Fin 180) then fsub v (Fin 360) else v) = Fin m'
            \<and> - 180 < m' \<and> m' \<le> 180 \<and> m' = x + 360 * of_int k"
proof (cases "180 < m")
  case True
  have "m - 360 = x + 360 * of_int (- \<lfloor>x / 360\<rfloor> - 1)" by (simp add: m_def)
  moreover have "- 180 < m - 360" "m - 360 \<le> 180"
    using True py_mod_range(2)[of x] by (simp_all add: m_def)
  moreover have "(let v = py_mod (Fin x) 360 in if fgt v (Fin 180) then fsub v (Fin 360) else v) = Fin (m - 360)"
    using True by (simp add: m_def)
  ultimately show ?thesis by blast
next
  case False
  have "m = x + 360 * of_int (- \<lfloor>x / 360\<rfloor>)" by (simp add: m_def)
  moreover have "- 180 < m" "m \<le> 180"
    using False py_mod_range(1)[of x] by (simp_all add: m_def)
  moreover have "(let v = py_mod (Fin x) 360 in if fgt v (Fin 180) then fsub v (Fin 360) else v) = Fin m"
    using False by (simp add: m_def)
  ultimately show ?thesis by blast
qed

text \<open>
  C7: the meridian of a new star is \<open>0\<close>; from a finite meridian \<open>m\<close>, \<open>rotate\<close> by a
  finite angle \<open>a\<close> leaves a meridian in \<open>(-180, 180]\<close> that differs from \<open>m + a\<close> by a
  multiple of \<open>360\<close>, and \<open>set_meridian\<close> to \<open>t\<close> leaves one that differs from \<open>t\<close> by a
  multiple of \<open>360\<close>.
\<close>

theorem meridian_in_half_open_interval:
  "star_meridian (snd (Star_init h c rad ax res)) = Fin 0
   \<and> (star_meridian s = Fin m \<longrightarrow>
        (\<exists>m' k. star_meridian (rotate_star (Fin a) s) = Fin m'
            \<and> - 180 < m' \<and> m' \<le> 180 \<and> m' = m + a + 360 * of_int k)
      \<and> (\<exists>m' k. star_meridian (set_meridian (Fin t) s) = Fin m'
            \<and> - 180 < m' \<and> m' \<le> 180 \<and> m' = t + 360 * of_int k))"
proof (intro conjI impI)
  show "star_meridian (snd (Star_init h c rad ax res)) = Fin 0"
    by (simp add: Star_init_def normalize_st_def)
next
  assume m: "star_meridian s = Fin m"
  show "\<exists>m' k. star_meridian (rotate_star (Fin a) s) = Fin m'
            \<and> - 180 < m' \<and> m' \<le> 180 \<and> m' = m + a + 360 * of_int k"
    using reduce_meridian[of "m + a"] by (simp add: rotate_meridian m)
  show "\<exists>m' k. star_meridian (set_meridian (Fin t) s) = Fin m'
            \<and> - 180 < m' \<and> m' \<le> 180 \<and> m' = t + 360 * of_int k"
    using reduce_meridian[of t] by (simp add: set_meridian_def rotate_meridian m)
qed

lemma reduce_meridian_fixed:
  fixes m :: real
  assumes "- 180 < m" and "m \<le> 180"
  shows "(let v = py_mod (Fin (m + 360)) 360 in if fgt v (Fin 180) then fsub v (Fin 360) else v) = Fin m"
proof (cases "0 \<le> m")
  case True
  then have "\<lfloor>(m + 360) / 360\<rfloor> = 1" using assms by (simp add: floor_eq_iff)
  then show ?thesis using assms by simp
next
  case False
  then have "\<lfloor>(m + 360) / 360\<rfloor> = 0" using assms by (simp add: floor_eq_iff)
  then show ?thesis using assms False by simp
qed

lemma full_turn_identity:
  "rotate_basis (Fin x, Fin y, Fin z) (Fin 0) (Fin 0) (radians (Fin (- 360))) = (Fin x, Fin y, Fin z)"
proof -
  have "radians (Fin (- 360)) = Fin (- (2 * pi))" by (simp add: radians_def)
  then show ?thesis by (simp add: rotate_basis_z)
qed

subsection \<open>Star: rotation\<close>

lemma in_ndindex: "(j, i) \<in> set (ndindex (m, n)) \<longleftrightarrow> j < m \<and> i < n"
  by (simp add: ndindex_def)

lemma rotate_P_finite:
  assumes "vfinite (star_P s ji)"
  shows "\<exists>x y z. star_P (rotate_star (Fin a) s) ji = (Fin x, Fin y, Fin z)"
proof -
  obtain x y z where p: "star_P s ji = (Fin x, Fin y, Fin z)"
    using assms by (cases "star_P s ji" rule: prod_cases3)
      (metis isfinite.elims(2) vfinite.simps)
  have "radians (fneg (Fin a)) = Fin (- a * (pi / 180))" by (simp add: radians_def)
  then show ?thesis using rotate_basis_finite[of x y z 0 0 "- a * (pi / 180)"]
    by (auto simp add: rotate_P p)
qed

text \<open>
  C6, as the code has it: \<open>rotate(360)\<close> gives back a meridian that lies in
  \<open>(-180, 180]\<close>; it recomputes the flux from the positions, the spots, \<open>mu\<close> and the two
  coefficients, so after any \<open>rotate\<close> by a finite angle a further \<open>rotate(360)\<close> leaves the
  position and the flux of every grid point with a finite position as they are.
\<close>

theorem rotate_full_turn:
  "(star_meridian s = Fin m \<and> - 180 < m \<and> m \<le> 180 \<longrightarrow>
      star_meridian (rotate_star (Fin 360) s) = Fin m)
   \<and> (vfinite (star_P s ji) \<longrightarrow>
        star_P (rotate_star (Fin 360) (rotate_star (Fin a) s)) ji = star_P (rotate_star (Fin a) s) ji
      \<and> star_flux (rotate_star (Fin 360) (rotate_star (Fin a) s)) ji = star_flux (rotate_star (Fin a) s) ji)"
proof (intro conjI impI)
  assume "star_meridian s = Fin m \<and> - 180 < m \<and> m \<le> 180"
  then show "star_meridian (rotate_star (Fin 360) s) = Fin m"
    using reduce_meridian_fixed[of m] by (simp add: rotate_meridian)
next
  assume fin: "vfinite (star_P s ji)"
  obtain x y z where p1: "star_P (rotate_star (Fin a) s) ji = (Fin x, Fin y, Fin z)"
    using rotate_P_finite[OF fin] by blast
  show P: "star_P (rotate_star (Fin 360) (rotate_star (Fin a) s)) ji = star_P (rotate_star (Fin a) s) ji"
    by (simp add: rotate_P[of "Fin 360"] p1 full_turn_identity)
  show "star_flux (rotate_star (Fin 360) (rotate_star (Fin a) s)) ji = star_flux (rotate_star (Fin a) s) ji"
    by (simp only: rotate_flux_at[of "Fin 360"] rotate_flux_at[of "Fin a" s] P rotate_keeps)
qed

lemma fresh_star_fields:
  "star_meridian (snd (Star_init h c rad ax res)) = Fin 0"
  "star_P (snd (Star_init h c rad ax res)) = (\<lambda>_. (Fin 0, Fin 0, Fin 0))"
  "star_r (snd (Star_init h c rad ax res)) = (\<lambda>_. Fin 0)"
  "star_lat (snd (Star_init h c rad ax res)) = (\<lambda>_. Fin 0)"
  "star_lon (snd (Star_init h c rad ax res)) = (\<lambda>_. Fin 0)"
  "star_mu (snd (Star_init h c rad ax res)) = (\<lambda>_. Fin 0)"
  "star_u1 (snd (Star_init h c rad ax res)) = Fin 0"
  "star_u2 (snd (Star_init h c rad ax res)) = Fin 0"
  "star_flux (snd (Star_init h c rad ax res)) = (\<lambda>_. Some (Fin 0))"
  "star_spots (snd (Star_init h c rad ax res)) = []"
  "star_shape (snd (Star_init h c rad ax res)) = (res, res)"
  by (simp_all add: Star_init_def normalize_st_def)

text \<open>
  C6 as stated fails on a star that has just been constructed: its flux grid holds zeros,
  and \<open>rotate(360)\<close> replaces them by the computed flux, here \<open>1\<close>.
\<close>

theorem fresh_star_flux_not_restored:
  "star_flux (snd (Star_init (\<lambda>_. (Fin 0, Fin 1, Fin 0)) (Fin 0, Fin 0, Fin 0) (Fin 1) 0 1)) (0, 0)
     = Some (Fin 0)
   \<and> star_flux (rotate_star (Fin 360)
        (snd (Star_init (\<lambda>_. (Fin 0, Fin 1, Fin 0)) (Fin 0, Fin 0, Fin 0) (Fin 1) 0 1))) (0, 0)
     = Some (Fin 1)"
  by (simp add: rotate_flux_at rotate_P fresh_star_fields in_ndindex rotate_basis_Fin radians_def
        ma_sub_def ma_scale_def ma_pow2_def)

theorem calc_flux_no_spots_witness:
  "star_flux (calc_flux (snd (Star_init (\<lambda>_. (Fin 0, Fin 1, Fin 0)) (Fin 0, Fin 0, Fin 0) (Fin 1) 0 1)))
       (0, 0) = Some (Fin 1)
   \<and> star_flux (calc_flux ((snd (Star_init (\<lambda>_. (Fin 0, Fin 1, Fin 0)) (Fin 0, Fin 0, Fin 0) (Fin 1) 0 1))
                             \<lparr>star_r := (\<lambda>_. NaN)\<rparr>))
       (0, 0) = None"
  using calc_flux_no_spots
          [of "snd (Star_init (\<lambda>_. (Fin 0, Fin 1, Fin 0)) (Fin 0, Fin 0, Fin 0) (Fin 1) 0 1)" "(0, 0)"]
        calc_flux_no_spots
          [of "(snd (Star_init (\<lambda>_. (Fin 0, Fin 1, Fin 0)) (Fin 0, Fin 0, Fin 0) (Fin 1) 0 1))
                 \<lparr>star_r := (\<lambda>_. NaN)\<rparr>" "(0, 0)"]
  by (simp add: fresh_star_fields)

theorem calc_flux_later_spot_wins_witness:
  "star_flux (calc_flux (Star_add
       [\<lparr>spot_lat = Fin 0, spot_lon = Fin 0, spot_radius = Fin 10, spot_contrast = Fin (1 / 2)\<rparr>,
        \<lparr>spot_lat = Fin 0, spot_lon = Fin 0, spot_radius = Fin 5, spot_contrast = Fin (1 / 5)\<rparr>]
       False
       (snd (Star_init (\<lambda>_. (Fin 0, Fin 1, Fin 0)) (Fin 0, Fin 0, Fin 0) (Fin 1) 0 1))))
     (0, 0) = Some (Fin (1 / 5))"
proof -
  let ?A = "\<lparr>spot_lat = Fin 0, spot_lon = Fin 0, spot_radius = Fin 10, spot_contrast = Fin (1 / 2)\<rparr>"
  let ?B = "\<lparr>spot_lat = Fin 0, spot_lon = Fin 0, spot_radius = Fin 5, spot_contrast = Fin (1 / 5)\<rparr>"
  let ?s = "Star_add [?A, ?B] False
       (snd (Star_init (\<lambda>_. (Fin 0, Fin 1, Fin 0)) (Fin 0, Fin 0, Fin 0) (Fin 1) 0 1))"
  have sp: "star_spots ?s = [?A, ?B]" by (simp add: Star_add_def fresh_star_fields)
  have ll: "star_lat ?s (0, 0) = Fin 0" "star_lon ?s (0, 0) = Fin 0"
    by (simp_all add: Star_add_def fresh_star_fields)
  have a: "fle (haversine (star_lat ?s (0, 0)) (star_lon ?s (0, 0)) (spot_lat ?A) (spot_lon ?A)) (spot_radius ?A)"
    unfolding ll by (simp add: haversine_same_point)
  have b: "fle (haversine (star_lat ?s (0, 0)) (star_lon ?s (0, 0)) (spot_lat ?B) (spot_lon ?B)) (spot_radius ?B)"
    unfolding ll by (simp add: haversine_same_point)
  from calc_flux_later_spot_wins[OF sp a b] show ?thesis by simp
qed

theorem meridian_in_half_open_interval_witness:
  "star_meridian (snd (Star_init (\<lambda>_. (Fin 0, Fin 1, Fin 0)) (Fin 0, Fin 0, Fin 0) (Fin 1) 0 1)) = Fin 0
   \<and> (\<exists>m' k. star_meridian (rotate_star (Fin 270)
                  (snd (Star_init (\<lambda>_. (Fin 0, Fin 1, Fin 0)) (Fin 0, Fin 0, Fin 0) (Fin 1) 0 1))) = Fin m'
            \<and> - 180 < m' \<and> m' \<le> 180 \<and> m' = 0 + 270 + 360 * of_int k)
   \<and> star_meridian (rotate_star (Fin 270)
                  (snd (Star_init (\<lambda>_. (Fin 0, Fin 1, Fin 0)) (Fin 0, Fin 0, Fin 0) (Fin 1) 0 1))) = Fin (- 90)"
proof -
  let ?s = "snd (Star_init (\<lambda>_. (Fin 0, Fin 1, Fin 0)) (Fin 0, Fin 0, Fin 0) (Fin 1) 0 1)"
  have m: "star_meridian ?s = Fin 0" by (simp add: fresh_star_fields)
  have v: "star_meridian (rotate_star (Fin 270) ?s) = Fin (- 90)"
    by (simp add: rotate_meridian fresh_star_fields)
  from meridian_in_half_open_interval
         [of "\<lambda>_. (Fin 0, Fin 1, Fin 0)" "(Fin 0, Fin 0, Fin 0)" "Fin 1" 0 1 ?s 0 270 0] m v
  show ?thesis by blast
qed

theorem rotate_full_turn_witness:
  "star_meridian (rotate_star (Fin 360)
      ((snd (Star_init (\<lambda>_. (Fin 0, Fin 1, Fin 0)) (Fin 0, Fin 0, Fin 0) (Fin 1) 0 1))
         \<lparr>star_P := (\<lambda>_. (Fin 0, Fin 0, Fin 1))\<rparr>)) = Fin 0
   \<and> star_flux (rotate_star (Fin 360) (rotate_star (Fin 90)
        ((snd (Star_init (\<lambda>_. (Fin 0, Fin 1, Fin 0)) (Fin 0, Fin 0, Fin 0) (Fin 1) 0 1))
           \<lparr>star_P := (\<lambda>_. (Fin 0, Fin 0, Fin 1))\<rparr>))) (0, 0)
     = star_flux (rotate_star (Fin 90)
        ((snd (Star_init (\<lambda>_. (Fin 0, Fin 1, Fin 0)) (Fin 0, Fin 0, Fin 0) (Fin 1) 0 1))
           \<lparr>star_P := (\<lambda>_. (Fin 0, Fin 0, Fin 1))\<rparr>)) (0, 0)"
proof -
  let ?s = "(snd (Star_init (\<lambda>_. (Fin 0, Fin 1, Fin 0)) (Fin 0, Fin 0, Fin 0) (Fin 1) 0 1))
         \<lparr>star_P := (\<lambda>_. (Fin 0, Fin 0, Fin 1))\<rparr>"
  have m: "star_meridian ?s = Fin 0 \<and> - 180 < (0::real) \<and> (0::real) \<le> 180"
    by (simp add: fresh_star_fields)
  have f: "vfinite (star_P ?s (0, 0))" by simp
  from rotate_full_turn[of ?s 0 "(0, 0)" 90] m f show ?thesis by blast
qed

subsection \<open>Scene: the two loops of trace\<close>





lemma put_pixel_same [simp]: "put_pixel s ji (pixel s ji) = s"
  by (simp add: put_pixel_def pixel_def)

lemma put_pixel_twice [simp]: "put_pixel (put_pixel s ji v) ji w = put_pixel s ji w"
  by (cases v; cases w) (simp add: put_pixel_def)



lemma pixel_put_pixel_other [simp]: "a \<noteq> ji \<Longrightarrow> pixel (put_pixel s a v) ji = pixel s ji"
  by (cases v) (simp add: put_pixel_def pixel_def)

lemma put_pixel_statics [simp]:
  "scene_bodies (put_pixel s ji v) = scene_bodies s"
  "scene_x (put_pixel s ji v) = scene_x s"
  "scene_y (put_pixel s ji v) = scene_y s"
  "scene_zmax (put_pixel s ji v) = scene_zmax s"
  "scene_shape (put_pixel s ji v) = scene_shape s"
  "scene_res (put_pixel s ji v) = scene_res s"
  by (cases v; simp add: put_pixel_def)+

lemma pixel_ray_put_pixel [simp]: "pixel_ray (put_pixel s a v) ji = pixel_ray s ji"
  by (simp add: pixel_ray_def)


















subsection \<open>Scene: finite bodies\<close>















subsection \<open>Scene: two concrete scenes\<close>















end
